theory Spec2Isabelle
  imports Complex_Main "HOL-Library.Sublist"
begin

section \<open>Values: parsed JSON, Python objects, SQLite values\<close>

text \<open>
  The synchronizer (\<^verbatim>\<open>blockchain_sync.py\<close>) handles three kinds of values: what
  \<^verbatim>\<open>response.json()\<close> parses from the node's reply, the Python objects it computes
  with, and what it binds to the \<^verbatim>\<open>?\<close> placeholders of its INSERT statements.
  The first two are the same objects (None, bool, int, float, str, list, dict), so one
  datatype serves both. A dict is its list of items; a float is the rational it denotes
  (its text and its sums are the machine's and come in as parameters; the non-finite
  floats are left out); a character is a code point below 256.
\<close>

datatype json =
    JNull
  | JBool bool
  | JInt int
  | JReal rat
  | JStr string
  | JArr "json list"
  | JObj "(string \<times> json) list"

datatype sqlval = SNull | SInt int | SReal rat | SText string

text \<open>
  Exceptions. \<open>KeyError\<close> carries the text \<^verbatim>\<open>str(e)\<close> gives (the repr of the key);
  \<open>ConnectionError\<close>, \<open>HTTPError\<close> and \<open>RpcError\<close> (the plain \<^verbatim>\<open>Exception\<close> that
  \<^verbatim>\<open>_make_rpc_call\<close> raises) carry their message. \<open>SqliteError\<close> stands for every
  subclass of \<^verbatim>\<open>sqlite3.Error\<close>; the other constructors are the interpreter's
  built-in exceptions and the decoding error of \<^verbatim>\<open>response.json()\<close>, whose messages
  are fixed texts of the interpreter and the library.
\<close>

datatype exn =
    KeyError string
  | TypeError
  | AttributeError
  | IndexError
  | OverflowError
  | SqliteError
  | ConnectionError string
  | HTTPError string
  | JSONDecodeError
  | RpcError string
  | OSError

definition bindE :: "exn + 'a \<Rightarrow> ('a \<Rightarrow> exn + 'b) \<Rightarrow> exn + 'b" where
  "bindE m f = (case m of Inl e \<Rightarrow> Inl e | Inr x \<Rightarrow> f x)"

subsection \<open>Strings: \<^verbatim>\<open>in\<close>, \<^verbatim>\<open>str\<close> and \<^verbatim>\<open>repr\<close>\<close>

text \<open>\<open>str_contains s n\<close> is Python's \<^verbatim>\<open>n in s\<close> on two strings.\<close>

fun str_contains :: "string \<Rightarrow> string \<Rightarrow> bool" where
  "str_contains [] n = (n = [])"
| "str_contains (c # cs) n = (prefix n (c # cs) \<or> str_contains cs n)"

definition digit_char :: "nat \<Rightarrow> char" where
  "digit_char d = ''0123456789abcdef'' ! d"

fun digits :: "nat \<Rightarrow> string" where
  "digits n = (if n < 10 then [digit_char n] else digits (n div 10) @ [digit_char (n mod 10)])"

definition int_str :: "int \<Rightarrow> string" where
  "int_str i = (if i < 0 then CHR ''-'' # digits (nat (- i)) else digits (nat i))"

fun join :: "string \<Rightarrow> string list \<Rightarrow> string" where
  "join sep [] = []"
| "join sep [x] = x"
| "join sep (x # y # ys) = x @ sep @ join sep (y # ys)"

definition py_printable :: "char \<Rightarrow> bool" where
  "py_printable c =
     (let n = (of_char c :: nat) in (32 \<le> n \<and> n < 127) \<or> (161 \<le> n \<and> n \<noteq> 173))"

text \<open>One character inside \<^verbatim>\<open>repr\<close> of a string that is quoted with \<open>q\<close>.\<close>

definition py_escape :: "char \<Rightarrow> char \<Rightarrow> string" where
  "py_escape q c =
     (if c = q \<or> c = CHR 0x5C then [CHR 0x5C, c]
      else if c = CHR 0x09 then [CHR 0x5C, CHR ''t'']
      else if c = CHR 0x0A then [CHR 0x5C, CHR ''n'']
      else if c = CHR 0x0D then [CHR 0x5C, CHR ''r'']
      else if py_printable c then [c]
      else [CHR 0x5C, CHR ''x'', digit_char (of_char c div 16), digit_char (of_char c mod 16)])"

text \<open>
  \<^verbatim>\<open>repr\<close> of a string: single quotes, unless the string has a single quote and no
  double quote.
\<close>

definition py_repr_str :: "string \<Rightarrow> string" where
  "py_repr_str s =
     (let q = (if CHR 0x27 \<in> set s \<and> CHR 0x22 \<notin> set s then CHR 0x22 else CHR 0x27)
      in q # concat (map (py_escape q) s) @ [q])"

text \<open>
  \<^verbatim>\<open>repr\<close> of a parsed JSON value. The shortest-digits text of a float is the
  interpreter's business and comes in as the parameter \<open>fr\<close>.
\<close>

fun py_repr :: "(rat \<Rightarrow> string) \<Rightarrow> json \<Rightarrow> string" where
  "py_repr fr JNull = ''None''"
| "py_repr fr (JBool b) = (if b then ''True'' else ''False'')"
| "py_repr fr (JInt n) = int_str n"
| "py_repr fr (JReal r) = fr r"
| "py_repr fr (JStr s) = py_repr_str s"
| "py_repr fr (JArr xs) = ''['' @ join '', '' (map (py_repr fr) xs) @ '']''"
| "py_repr fr (JObj kvs) =
     ''{'' @ join '', '' (map (\<lambda>kv. py_repr_str (fst kv) @ '': '' @ py_repr fr (snd kv)) kvs) @ ''}''"

text \<open>\<^verbatim>\<open>str(x)\<close>, as an f-string formats \<^verbatim>\<open>{x}\<close>: a string is itself, anything else its repr.\<close>

definition py_str :: "(rat \<Rightarrow> string) \<Rightarrow> json \<Rightarrow> string" where
  "py_str fr x = (case x of JStr s \<Rightarrow> s | _ \<Rightarrow> py_repr fr x)"

text \<open>
  \<^verbatim>\<open>json.dumps\<close> with its defaults: double quotes, every character outside the
  printable ASCII range escaped, \<^verbatim>\<open>", "\<close> and \<^verbatim>\<open>": "\<close> as separators.
\<close>

definition json_escape :: "char \<Rightarrow> string" where
  "json_escape c =
     (if c = CHR 0x22 \<or> c = CHR 0x5C then [CHR 0x5C, c]
      else if c = CHR 0x0A then [CHR 0x5C, CHR ''n'']
      else if c = CHR 0x0D then [CHR 0x5C, CHR ''r'']
      else if c = CHR 0x09 then [CHR 0x5C, CHR ''t'']
      else if c = CHR 0x08 then [CHR 0x5C, CHR ''b'']
      else if c = CHR 0x0C then [CHR 0x5C, CHR ''f'']
      else if (of_char c :: nat) < 32 \<or> 127 \<le> (of_char c :: nat)
      then [CHR 0x5C, CHR ''u'', CHR ''0'', CHR ''0'',
            digit_char (of_char c div 16), digit_char (of_char c mod 16)]
      else [c])"

definition json_dumps_str :: "string \<Rightarrow> string" where
  "json_dumps_str s = CHR 0x22 # concat (map json_escape s) @ [CHR 0x22]"

fun json_dumps :: "(rat \<Rightarrow> string) \<Rightarrow> json \<Rightarrow> string" where
  "json_dumps fr JNull = ''null''"
| "json_dumps fr (JBool b) = (if b then ''true'' else ''false'')"
| "json_dumps fr (JInt n) = int_str n"
| "json_dumps fr (JReal r) = fr r"
| "json_dumps fr (JStr s) = json_dumps_str s"
| "json_dumps fr (JArr xs) = ''['' @ join '', '' (map (json_dumps fr) xs) @ '']''"
| "json_dumps fr (JObj kvs) =
     ''{'' @ join '', '' (map (\<lambda>kv. json_dumps_str (fst kv) @ '': '' @ json_dumps fr (snd kv)) kvs) @ ''}''"

subsection \<open>Operations on Python objects\<close>

text \<open>\<^verbatim>\<open>x[k]\<close> with a string key: only a dict can be subscripted by a string.\<close>

fun py_getitem :: "json \<Rightarrow> string \<Rightarrow> exn + json" where
  "py_getitem (JObj kvs) k =
     (case map_of kvs k of None \<Rightarrow> Inl (KeyError (py_repr_str k)) | Some v \<Rightarrow> Inr v)"
| "py_getitem _ k = Inl TypeError"

text \<open>\<^verbatim>\<open>x.get(k, d)\<close>: only a dict has the method.\<close>

fun py_get :: "json \<Rightarrow> string \<Rightarrow> json \<Rightarrow> exn + json" where
  "py_get (JObj kvs) k d = Inr (case map_of kvs k of None \<Rightarrow> d | Some v \<Rightarrow> v)"
| "py_get _ k d = Inl AttributeError"

text \<open>\<^verbatim>\<open>k in x\<close> with a string \<open>k\<close>: a key of a dict, an element of a list, a substring.\<close>

fun py_contains :: "string \<Rightarrow> json \<Rightarrow> exn + bool" where
  "py_contains k (JObj kvs) = Inr (map_of kvs k \<noteq> None)"
| "py_contains k (JArr xs) = Inr (JStr k \<in> set xs)"
| "py_contains k (JStr s) = Inr (str_contains s k)"
| "py_contains k _ = Inl TypeError"

text \<open>\<^verbatim>\<open>for v in x\<close>: the elements of a list, the keys of a dict, the characters of a string.\<close>

fun py_iter :: "json \<Rightarrow> exn + json list" where
  "py_iter (JArr xs) = Inr xs"
| "py_iter (JObj kvs) = Inr (map (\<lambda>kv. JStr (fst kv)) kvs)"
| "py_iter (JStr s) = Inr (map (\<lambda>c. JStr [c]) s)"
| "py_iter _ = Inl TypeError"

text \<open>\<^verbatim>\<open>x[0]\<close>.\<close>

fun py_first :: "json \<Rightarrow> exn + json" where
  "py_first (JArr []) = Inl IndexError"
| "py_first (JArr (v # vs)) = Inr v"
| "py_first (JStr []) = Inl IndexError"
| "py_first (JStr (c # cs)) = Inr (JStr [c])"
| "py_first (JObj kvs) = Inl (KeyError ''0'')"
| "py_first _ = Inl TypeError"

fun getitems :: "json \<Rightarrow> string list \<Rightarrow> exn + json list" where
  "getitems x [] = Inr []"
| "getitems x (k # ks) =
     bindE (py_getitem x k) (\<lambda>v. bindE (getitems x ks) (\<lambda>vs. Inr (v # vs)))"

section \<open>The store\<close>

text \<open>
  Four tables: blocks, transactions, inputs, outputs. A row is its rowid (the \<^verbatim>\<open>id\<close>
  that \<^verbatim>\<open>query.py\<close> joins on, and what \<^verbatim>\<open>cursor.lastrowid\<close> reports after the INSERT)
  and the columns the INSERT statement names, each with the value bound to it. SQLite
  keeps a value of any storage class in any column, so a column holds a \<open>sqlval\<close>.
\<close>

type_synonym row = "int \<times> (string \<times> sqlval) list"

record database =
  blocks :: "row list"
  transactions :: "row list"
  inputs :: "row list"
  outputs :: "row list"

datatype table = Blocks | Transactions | Inputs | Outputs

fun rows_of :: "table \<Rightarrow> database \<Rightarrow> row list" where
  "rows_of Blocks d = blocks d"
| "rows_of Transactions d = transactions d"
| "rows_of Inputs d = inputs d"
| "rows_of Outputs d = outputs d"

fun add_row :: "table \<Rightarrow> row \<Rightarrow> database \<Rightarrow> database" where
  "add_row Blocks r d = d\<lparr>blocks := blocks d @ [r]\<rparr>"
| "add_row Transactions r d = d\<lparr>transactions := transactions d @ [r]\<rparr>"
| "add_row Inputs r d = d\<lparr>inputs := inputs d @ [r]\<rparr>"
| "add_row Outputs r d = d\<lparr>outputs := outputs d @ [r]\<rparr>"

definition empty_db :: database where
  "empty_db = \<lparr>blocks = [], transactions = [], inputs = [], outputs = []\<rparr>"

text \<open>The rowid SQLite gives a new row: one more than the largest in the table, 1 in an empty one.\<close>

definition next_rowid :: "row list \<Rightarrow> int" where
  "next_rowid rs = (case rs of [] \<Rightarrow> 1 | r # rs' \<Rightarrow> fold (\<lambda>x m. max (fst x) m) rs' (fst r) + 1)"

text \<open>
  Binding a Python object to a placeholder: None, int (bool is an int), float and str
  are the types the sqlite3 module adapts; a list or a dict is refused with a
  \<^verbatim>\<open>sqlite3.Error\<close>, an int that does not fit 64 bits with the built-in OverflowError.
\<close>

fun bind_param :: "json \<Rightarrow> exn + sqlval" where
  "bind_param JNull = Inr SNull"
| "bind_param (JBool b) = Inr (SInt (if b then 1 else 0))"
| "bind_param (JInt n) =
     (if - (2 ^ 63) \<le> n \<and> n < 2 ^ 63 then Inr (SInt n) else Inl OverflowError)"
| "bind_param (JReal r) = Inr (SReal r)"
| "bind_param (JStr s) = Inr (SText s)"
| "bind_param (JArr xs) = Inl SqliteError"
| "bind_param (JObj kvs) = Inl SqliteError"

fun bind_all :: "json list \<Rightarrow> exn + sqlval list" where
  "bind_all [] = Inr []"
| "bind_all (p # ps) =
     bindE (bind_param p) (\<lambda>v. bindE (bind_all ps) (\<lambda>vs. Inr (v # vs)))"

section \<open>The environment of the synchronizer\<close>

text \<open>
  What the node answers: no reply at all (a transport failure, with the text of the
  exception the HTTP library raises), or a reply with its status code, its reason
  phrase and its body as \<^verbatim>\<open>response.json()\<close> parses it (\<open>None\<close> when the body is not
  JSON).
\<close>

datatype http_reply =
    NoReply string
  | Reply nat string "json option"

text \<open>
  What the store does with an INSERT it has compiled and bound: it executes it; it
  refuses it and keeps the open transaction (a constraint of the schema); or it fails in
  a way after which SQLite has rolled the whole open transaction back (a full disk, an
  I/O error, no memory).
\<close>

datatype verdict = Accepted | Refused | Aborted

text \<open>
  The parts of the world the source does not fix are parameters:
  \<^item> \<open>rpc_url\<close>: the URL of the node, as a reply reports it (\<^verbatim>\<open>response.url\<close>);
  \<^item> \<open>rpc_node\<close>: the node, as its reply to a method and its parameters;
  \<^item> \<open>db_opens\<close>: whether \<^verbatim>\<open>sqlite3.connect\<close> opens the store for the writer;
  \<^item> \<open>db_prepares\<close>: whether an INSERT into this table compiles and, when no transaction
    is open, one can be begun (the table is there, the file is not locked); the schema
    is what the file \<^verbatim>\<open>lastest_block.sql\<close> declares, which the source does not hold;
  \<^item> \<open>db_executes\<close>: what the store does with an INSERT of these column values into this
    table in this state;
  \<^item> \<open>db_commits\<close>: whether \<^verbatim>\<open>conn.commit()\<close> of this state succeeds;
  \<^item> \<open>db_reads\<close>: whether the height tracker can open the store and run its SELECT;
  \<^item> \<open>float_repr\<close> and \<open>float_add1\<close>: the interpreter's text of a float, and its
    rounded sum of a float and 1.
\<close>

record env =
  rpc_url :: string
  rpc_node :: "string \<Rightarrow> json list \<Rightarrow> http_reply"
  db_opens :: "database \<Rightarrow> bool"
  db_prepares :: "table \<Rightarrow> database \<Rightarrow> bool"
  db_executes :: "table \<Rightarrow> database \<Rightarrow> (string \<times> sqlval) list \<Rightarrow> verdict"
  db_commits :: "database \<Rightarrow> bool"
  db_reads :: "database \<Rightarrow> bool"
  float_repr :: "rat \<Rightarrow> string"
  float_add1 :: "rat \<Rightarrow> rat"

section \<open>Persistence writer: \<^verbatim>\<open>_store_block\<close> and \<^verbatim>\<open>_store_transaction\<close>\<close>

text \<open>
  \<^verbatim>\<open>cursor.execute("INSERT INTO t (cols) VALUES (?, ...)", params)\<close>, with \<open>d\<close> the
  committed state of the store and \<open>w\<close> the state the connection sees (\<open>d\<close> and the
  rows of the open transaction): the statement is compiled and a transaction begun if
  none is open, the parameters are bound in order, then the statement runs. It returns
  the state the connection sees afterwards, and the rowid of the new row or the
  exception. A statement that fails leaves \<open>w\<close> as it was, but for the failures after
  which SQLite has rolled the transaction back: the connection then sees \<open>d\<close> again,
  and its next INSERT begins a new transaction.
\<close>

definition execute_insert ::
  "env \<Rightarrow> table \<Rightarrow> string list \<Rightarrow> json list \<Rightarrow> database \<Rightarrow> database
     \<Rightarrow> database \<times> (exn + int)" where
  "execute_insert env t cols params d w =
     (if \<not> db_prepares env t w then (w, Inl SqliteError)
      else case bind_all params of
             Inl e \<Rightarrow> (w, Inl e)
           | Inr vals \<Rightarrow>
               (let r = zip cols vals; rid = next_rowid (rows_of t w)
                in case db_executes env t w r of
                     Accepted \<Rightarrow> (add_row t (rid, r) w, Inr rid)
                   | Refused \<Rightarrow> (w, Inl SqliteError)
                   | Aborted \<Rightarrow> (d, Inl SqliteError)))"

text \<open>
  The call with its argument: Python evaluates the parameter tuple first, and an
  exception there is the exception of the call.
\<close>

definition insert_row ::
  "env \<Rightarrow> table \<Rightarrow> string list \<Rightarrow> exn + json list \<Rightarrow> database \<Rightarrow> database
     \<Rightarrow> database \<times> (exn + int)" where
  "insert_row env t cols params d w =
     (case params of Inl e \<Rightarrow> (w, Inl e) | Inr ps \<Rightarrow> execute_insert env t cols ps d w)"

definition block_cols :: "string list" where
  "block_cols = [''hash'', ''height'', ''version'', ''timestamp'', ''size'', ''weight'',
     ''merkle_root'', ''nonce'', ''bits'', ''difficulty'', ''previous_hash'', ''next_hash'']"

definition transaction_cols :: "string list" where
  "transaction_cols = [''txid'', ''block_id'', ''version'', ''size'', ''weight'', ''fee'']"

definition input_cols :: "string list" where
  "input_cols = [''transaction_id'', ''previous_txid'', ''previous_vout'', ''sequence'',
     ''script_sig'']"

definition output_cols :: "string list" where
  "output_cols = [''transaction_id'', ''vout'', ''value'', ''script_pubkey'', ''address'']"

text \<open>The parameter tuples, evaluated left to right as Python does.\<close>

definition block_params :: "json \<Rightarrow> exn + json list" where
  "block_params block_data =
     bindE (getitems block_data [''hash'', ''height'', ''version'', ''time'', ''size'',
              ''weight'', ''merkleroot'', ''nonce'', ''bits'', ''difficulty''])
       (\<lambda>req. bindE (py_get block_data ''previousblockhash'' JNull)
         (\<lambda>prev. bindE (py_get block_data ''nextblockhash'' JNull)
           (\<lambda>nxt. Inr (req @ [prev, nxt]))))"

definition transaction_params :: "json \<Rightarrow> int \<Rightarrow> exn + json list" where
  "transaction_params tx_data block_id =
     bindE (py_getitem tx_data ''txid'')
       (\<lambda>txid. bindE (getitems tx_data [''version'', ''size'', ''weight''])
         (\<lambda>vsw. bindE (py_get tx_data ''fee'' (JInt 0))
           (\<lambda>fee. Inr ([txid, JInt block_id] @ vsw @ [fee]))))"

definition input_params :: "env \<Rightarrow> int \<Rightarrow> json \<Rightarrow> exn + json list" where
  "input_params env tx_id vin =
     bindE (py_get vin ''txid'' (JStr []))
       (\<lambda>ptxid. bindE (py_get vin ''vout'' (JInt 0))
         (\<lambda>pvout. bindE (py_get vin ''sequence'' (JInt 0))
           (\<lambda>sq. bindE (py_get vin ''scriptSig'' (JObj []))
             (\<lambda>sig. Inr [JInt tx_id, ptxid, pvout, sq, JStr (json_dumps (float_repr env) sig)]))))"

text \<open>
  \<^verbatim>\<open>vout['scriptPubKey'].get('addresses', [''])[0] if 'addresses' in vout['scriptPubKey'] else None\<close>,
  on the value of \<^verbatim>\<open>vout['scriptPubKey']\<close>.
\<close>

definition output_address :: "json \<Rightarrow> exn + json" where
  "output_address spk =
     bindE (py_contains ''addresses'' spk)
       (\<lambda>has. if has then bindE (py_get spk ''addresses'' (JArr [JStr []])) py_first
               else Inr JNull)"

definition output_params :: "env \<Rightarrow> int \<Rightarrow> json \<Rightarrow> exn + json list" where
  "output_params env tx_id vout =
     bindE (py_getitem vout ''n'')
       (\<lambda>n. bindE (py_getitem vout ''value'')
         (\<lambda>v. bindE (py_getitem vout ''scriptPubKey'')
           (\<lambda>spk. bindE (output_address spk)
             (\<lambda>addr. Inr [JInt tx_id, n, v, JStr (json_dumps (float_repr env) spk), addr]))))"

text \<open>The two loops of \<^verbatim>\<open>_store_transaction\<close>; the first exception ends the loop.\<close>

fun store_inputs ::
  "env \<Rightarrow> int \<Rightarrow> json list \<Rightarrow> database \<Rightarrow> database \<Rightarrow> database \<times> exn option" where
  "store_inputs env tx_id [] d w = (w, None)"
| "store_inputs env tx_id (vin # vins) d w =
     (case insert_row env Inputs input_cols (input_params env tx_id vin) d w of
        (w', Inl e) \<Rightarrow> (w', Some e)
      | (w', Inr rid) \<Rightarrow> store_inputs env tx_id vins d w')"

fun store_outputs ::
  "env \<Rightarrow> int \<Rightarrow> json list \<Rightarrow> database \<Rightarrow> database \<Rightarrow> database \<times> exn option" where
  "store_outputs env tx_id [] d w = (w, None)"
| "store_outputs env tx_id (vout # vouts) d w =
     (case insert_row env Outputs output_cols (output_params env tx_id vout) d w of
        (w', Inl e) \<Rightarrow> (w', Some e)
      | (w', Inr rid) \<Rightarrow> store_outputs env tx_id vouts d w')"

text \<open>The body of the \<^verbatim>\<open>try\<close> of \<^verbatim>\<open>_store_transaction\<close>: the state it leaves to the
  connection, and the exception that ended it, if any.\<close>

definition store_transaction_body ::
  "env \<Rightarrow> database \<Rightarrow> database \<Rightarrow> json \<Rightarrow> int \<Rightarrow> database \<times> exn option" where
  "store_transaction_body env d w tx_data block_id =
     (case insert_row env Transactions transaction_cols
             (transaction_params tx_data block_id) d w of
        (w1, Inl e) \<Rightarrow> (w1, Some e)
      | (w1, Inr tx_id) \<Rightarrow>
          (case bindE (py_get tx_data ''vin'' (JArr [])) py_iter of
             Inl e \<Rightarrow> (w1, Some e)
           | Inr vins \<Rightarrow>
               (case store_inputs env tx_id vins d w1 of
                  (w2, Some e) \<Rightarrow> (w2, Some e)
                | (w2, None) \<Rightarrow>
                    (case bindE (py_get tx_data ''vout'' (JArr [])) py_iter of
                       Inl e \<Rightarrow> (w2, Some e)
                     | Inr vouts \<Rightarrow> store_outputs env tx_id vouts d w2))))"

text \<open>
  \<^verbatim>\<open>_store_transaction\<close>: a \<^verbatim>\<open>sqlite3.Error\<close> is caught and turned into the result
  False; any other exception goes on to the caller. What the connection sees
  afterwards is what the failed statement left: the rows inserted before it, or the
  committed state.
\<close>

definition store_transaction ::
  "env \<Rightarrow> database \<Rightarrow> database \<Rightarrow> json \<Rightarrow> int \<Rightarrow> database \<times> (exn + bool)" where
  "store_transaction env d w tx_data block_id =
     (case store_transaction_body env d w tx_data block_id of
        (w', None) \<Rightarrow> (w', Inr True)
      | (w', Some e) \<Rightarrow> if e = SqliteError then (w', Inr False) else (w', Inl e))"

text \<open>
  \<^verbatim>\<open>for tx in block_data.get('tx', []): self._store_transaction(cursor, tx, block_id)\<close>:
  the result of the call is not looked at.
\<close>

fun store_transactions ::
  "env \<Rightarrow> int \<Rightarrow> json list \<Rightarrow> database \<Rightarrow> database \<Rightarrow> database \<times> exn option" where
  "store_transactions env block_id [] d w = (w, None)"
| "store_transactions env block_id (tx # txs) d w =
     (case store_transaction env d w tx block_id of
        (w', Inl e) \<Rightarrow> (w', Some e)
      | (w', Inr ok) \<Rightarrow> store_transactions env block_id txs d w')"

text \<open>
  The body of the \<^verbatim>\<open>with sqlite3.connect(...) as conn\<close> block of \<^verbatim>\<open>_store_block\<close>, on
  a store that was opened: the state it commits, or the exception that leaves it (the
  connection then rolls back what is open).
\<close>

definition store_block_body :: "env \<Rightarrow> database \<Rightarrow> json \<Rightarrow> exn + database" where
  "store_block_body env d block_data =
     (case insert_row env Blocks block_cols (block_params block_data) d d of
        (w1, Inl e) \<Rightarrow> Inl e
      | (w1, Inr block_id) \<Rightarrow>
          bindE (bindE (py_get block_data ''tx'' (JArr [])) py_iter)
            (\<lambda>txs. case store_transactions env block_id txs d w1 of
                      (w2, Some e) \<Rightarrow> Inl e
                    | (w2, None) \<Rightarrow> if db_commits env w2 then Inr w2 else Inl SqliteError))"

text \<open>
  \<^verbatim>\<open>_store_block\<close>: the store is opened before anything of the payload is read. True
  after the commit; False, with the store as it was, when the store could not be opened
  or a \<^verbatim>\<open>sqlite3.Error\<close> left the block; any other exception goes on to the caller, the
  store as it was.
\<close>

definition store_block :: "env \<Rightarrow> database \<Rightarrow> json \<Rightarrow> database \<times> (exn + bool)" where
  "store_block env d block_data =
     (if \<not> db_opens env d then (d, Inr False)
      else case store_block_body env d block_data of
             Inr w \<Rightarrow> (w, Inr True)
           | Inl e \<Rightarrow> if e = SqliteError then (d, Inr False) else (d, Inl e))"

section \<open>RPC client: \<^verbatim>\<open>_make_rpc_call\<close>\<close>

text \<open>The message of the \<^verbatim>\<open>HTTPError\<close> that \<^verbatim>\<open>response.raise_for_status()\<close> raises.\<close>

definition http_error_msg :: "nat \<Rightarrow> string \<Rightarrow> string \<Rightarrow> string" where
  "http_error_msg status reason url =
     digits status @ (if status < 500 then '' Client Error: '' else '' Server Error: '')
       @ reason @ '' for url: '' @ url"

text \<open>
  One request and its reply. The \<^verbatim>\<open>except\<close> clauses of the source log and re-raise,
  so every exception of the body is the exception of the call:
  \<^item> no reply: the transport's exception;
  \<^item> a status from 400 to 599: \<^verbatim>\<open>raise_for_status()\<close> raises before the body is read;
  \<^item> a body that is not JSON: the decoding error;
  \<^item> \<^verbatim>\<open>'error' in result and result['error'] is not None\<close>: the exception built from
    the error value;
  \<^item> otherwise \<^verbatim>\<open>result['result']\<close>.
\<close>

definition make_rpc_call :: "env \<Rightarrow> string \<Rightarrow> json list \<Rightarrow> exn + json" where
  "make_rpc_call env meth params =
     (case rpc_node env meth params of
        NoReply msg \<Rightarrow> Inl (ConnectionError msg)
      | Reply status reason body \<Rightarrow>
          if 400 \<le> status \<and> status < 600
          then Inl (HTTPError (http_error_msg status reason (rpc_url env)))
          else (case body of
                  None \<Rightarrow> Inl JSONDecodeError
                | Some result \<Rightarrow>
                    bindE (py_contains ''error'' result)
                      (\<lambda>has. bindE (if has
                                     then bindE (py_getitem result ''error'')
                                            (\<lambda>err. Inr (err \<noteq> JNull))
                                     else Inr False)
                        (\<lambda>failed.
                           if failed
                           then bindE (py_getitem result ''error'')
                                  (\<lambda>err. Inl (RpcError (''RPC error: '' @ py_str (float_repr env) err)))
                           else py_getitem result ''result''))))"

section \<open>The synchronizer object and its log\<close>

text \<open>
  The lines of \<^verbatim>\<open>blockchain_sync.log\<close> that mark the control flow: the debug line of
  every RPC call (method and parameters), and the lines of \<^verbatim>\<open>sync_latest_blocks\<close> and
  \<^verbatim>\<open>_get_prune_height\<close>.
\<close>

datatype logline =
    Debug_rpc string "json list"
  | Error_prune_height exn
  | Info_up_to_date
  | Info_processing int
  | Info_synced int
  | Error_failed_to_sync int
  | Warning_pruned int
  | Error_processing int exn
  | Error_sync_failed exn

text \<open>
  A \<^verbatim>\<open>BlockchainSync\<close> object with the store behind its \<^verbatim>\<open>db_path\<close>: the field
  \<^verbatim>\<open>last_synced_height\<close> is a Python object, whatever the constructor read.
\<close>

record sync =
  db :: database
  last_synced_height :: json
  logged :: "logline list"

definition add_log :: "logline \<Rightarrow> sync \<Rightarrow> sync" where
  "add_log l s = s\<lparr>logged := logged s @ [l]\<rparr>"

definition logged_rpc_call ::
  "env \<Rightarrow> string \<Rightarrow> json list \<Rightarrow> sync \<Rightarrow> (exn + json) \<times> sync" where
  "logged_rpc_call env meth params s =
     (make_rpc_call env meth params, add_log (Debug_rpc meth params) s)"

section \<open>Height tracker: \<^verbatim>\<open>_get_last_synced_height\<close>\<close>

text \<open>SQLite's order of values: NULL first, then the numbers by value, then the texts
  byte by byte.\<close>

fun str_less :: "string \<Rightarrow> string \<Rightarrow> bool" where
  "str_less [] [] = False"
| "str_less [] (b # bs) = True"
| "str_less (a # as) [] = False"
| "str_less (a # as) (b # bs) =
     ((of_char a :: nat) < of_char b \<or> (a = b \<and> str_less as bs))"

fun sql_less :: "sqlval \<Rightarrow> sqlval \<Rightarrow> bool" where
  "sql_less SNull v = (v \<noteq> SNull)"
| "sql_less (SInt a) (SInt b) = (a < b)"
| "sql_less (SInt a) (SReal b) = (of_int a < b)"
| "sql_less (SReal a) (SInt b) = (a < of_int b)"
| "sql_less (SReal a) (SReal b) = (a < b)"
| "sql_less (SInt a) (SText t) = True"
| "sql_less (SReal a) (SText t) = True"
| "sql_less (SText s) (SText t) = str_less s t"
| "sql_less _ _ = False"

text \<open>The aggregate \<^verbatim>\<open>MAX\<close>: the largest value that is not NULL, NULL when there is none.\<close>

definition sql_max :: "sqlval list \<Rightarrow> sqlval" where
  "sql_max vs = fold (\<lambda>v m. if sql_less m v then v else m) vs SNull"

definition col :: "string \<Rightarrow> row \<Rightarrow> sqlval" where
  "col c r = (case map_of (snd r) c of None \<Rightarrow> SNull | Some v \<Rightarrow> v)"

fun py_of_sql :: "sqlval \<Rightarrow> json" where
  "py_of_sql SNull = JNull"
| "py_of_sql (SInt n) = JInt n"
| "py_of_sql (SReal r) = JReal r"
| "py_of_sql (SText s) = JStr s"

text \<open>
  \<^verbatim>\<open>SELECT MAX(height) FROM blocks\<close>; \<^verbatim>\<open>result[0] if result[0] is not None else 0\<close>; and 0
  when the query raises a \<^verbatim>\<open>sqlite3.Error\<close>.
\<close>

definition get_last_synced_height :: "env \<Rightarrow> database \<Rightarrow> json" where
  "get_last_synced_height env d =
     (if db_reads env d
      then (case sql_max (map (col ''height'') (blocks d)) of
              SNull \<Rightarrow> JInt 0
            | v \<Rightarrow> py_of_sql v)
      else JInt 0)"

text \<open>\<^verbatim>\<open>BlockchainSync.__init__\<close>: the only place the height tracker is called.\<close>

definition new_sync :: "env \<Rightarrow> database \<Rightarrow> sync" where
  "new_sync env d = \<lparr>db = d, last_synced_height = get_last_synced_height env d, logged = []\<rparr>"

section \<open>Sync engine: \<^verbatim>\<open>_get_prune_height\<close> and \<^verbatim>\<open>sync_latest_blocks\<close>\<close>

text \<open>\<^verbatim>\<open>_get_prune_height\<close>: every exception of its body gives 0.\<close>

definition get_prune_height :: "env \<Rightarrow> sync \<Rightarrow> json \<times> sync" where
  "get_prune_height env s =
     (case logged_rpc_call env ''getblockchaininfo'' [] s of
        (r, s1) \<Rightarrow>
          (case bindE r (\<lambda>chain_info.
                  bindE (py_contains ''pruneheight'' chain_info)
                    (\<lambda>has. if has then py_getitem chain_info ''pruneheight''
                            else Inr (JInt 0))) of
             Inl e \<Rightarrow> (JInt 0, add_log (Error_prune_height e) s1)
           | Inr v \<Rightarrow> (v, s1)))"

text \<open>Python's numbers: an int (a bool is one) or a float.\<close>

datatype num = NInt int | NFloat rat

fun as_num :: "json \<Rightarrow> num option" where
  "as_num (JInt n) = Some (NInt n)"
| "as_num (JBool b) = Some (NInt (if b then 1 else 0))"
| "as_num (JReal r) = Some (NFloat r)"
| "as_num _ = None"

fun num_val :: "num \<Rightarrow> rat" where
  "num_val (NInt n) = of_int n"
| "num_val (NFloat r) = r"

text \<open>\<^verbatim>\<open>x + 1\<close>: exact on an int, rounded by the machine on a float.\<close>

definition py_add1 :: "env \<Rightarrow> json \<Rightarrow> exn + num" where
  "py_add1 env x =
     (case as_num x of
        None \<Rightarrow> Inl TypeError
      | Some (NInt n) \<Rightarrow> Inr (NInt (n + 1))
      | Some (NFloat r) \<Rightarrow> Inr (NFloat (float_add1 env r)))"

text \<open>\<^verbatim>\<open>max(a, b)\<close>: \<open>b\<close> when \<^verbatim>\<open>b > a\<close>, else \<open>a\<close>.\<close>

definition py_max :: "num \<Rightarrow> json \<Rightarrow> exn + num" where
  "py_max a b =
     (case as_num b of
        None \<Rightarrow> Inl TypeError
      | Some nb \<Rightarrow> Inr (if num_val a < num_val nb then nb else a))"

text \<open>\<^verbatim>\<open>a <= b\<close>.\<close>

definition py_le :: "json \<Rightarrow> num \<Rightarrow> exn + bool" where
  "py_le a b =
     (case as_num a of None \<Rightarrow> Inl TypeError | Some na \<Rightarrow> Inr (num_val na \<le> num_val b))"

text \<open>\<^verbatim>\<open>range(start, current + 1)\<close>: both ends must be ints.\<close>

definition py_range :: "num \<Rightarrow> json \<Rightarrow> exn + int list" where
  "py_range start current =
     (case (start, as_num current) of
        (NInt a, Some (NInt c)) \<Rightarrow> Inr [a..c]
      | _ \<Rightarrow> Inl TypeError)"

definition pruned_marker :: string where
  "pruned_marker = ''Block not available (pruned data)''"

text \<open>
  \<^verbatim>\<open>"Block not available (pruned data)" in str(e)\<close>. The exceptions that carry no text
  here have the fixed messages of the interpreter and its libraries, none of which
  holds the phrase.
\<close>

fun pruned_data :: "exn \<Rightarrow> bool" where
  "pruned_data (KeyError m) = str_contains m pruned_marker"
| "pruned_data (ConnectionError m) = str_contains m pruned_marker"
| "pruned_data (HTTPError m) = str_contains m pruned_marker"
| "pruned_data (RpcError m) = str_contains m pruned_marker"
| "pruned_data _ = False"

text \<open>The body of the inner \<^verbatim>\<open>try\<close>, up to the result of \<^verbatim>\<open>_store_block\<close>.\<close>

definition fetch_and_store :: "env \<Rightarrow> int \<Rightarrow> sync \<Rightarrow> sync \<times> (exn + bool)" where
  "fetch_and_store env height s =
     (case logged_rpc_call env ''getblockhash'' [JInt height] s of
        (Inl e, s1) \<Rightarrow> (s1, Inl e)
      | (Inr block_hash, s1) \<Rightarrow>
          (case logged_rpc_call env ''getblock'' [block_hash, JInt 2] s1 of
             (Inl e, s2) \<Rightarrow> (s2, Inl e)
           | (Inr block_data, s2) \<Rightarrow>
               (case store_block env (db s2) block_data of
                  (d, r) \<Rightarrow> (s2\<lparr>db := d\<rparr>, r))))"

text \<open>\<^verbatim>\<open>for height in range(start_height, current_height + 1)\<close>, with its \<^verbatim>\<open>break\<close>
  and \<^verbatim>\<open>continue\<close>.\<close>

fun sync_loop :: "env \<Rightarrow> int list \<Rightarrow> sync \<Rightarrow> sync" where
  "sync_loop env [] s = s"
| "sync_loop env (height # heights) s =
     (case fetch_and_store env height (add_log (Info_processing height) s) of
        (s1, Inr True) \<Rightarrow>
          sync_loop env heights
            (add_log (Info_synced height) (s1\<lparr>last_synced_height := JInt height\<rparr>))
      | (s1, Inr False) \<Rightarrow> add_log (Error_failed_to_sync height) s1
      | (s1, Inl e) \<Rightarrow>
          if pruned_data e
          then sync_loop env heights
                 (add_log (Warning_pruned height) (s1\<lparr>last_synced_height := JInt height\<rparr>))
          else add_log (Error_processing height e) s1)"

text \<open>The body of the outer \<^verbatim>\<open>try\<close>: the state it leaves and the exception that ended
  it, if any.\<close>

definition sync_body :: "env \<Rightarrow> sync \<Rightarrow> sync \<times> exn option" where
  "sync_body env s =
     (case logged_rpc_call env ''getblockcount'' [] s of
        (Inl e, s1) \<Rightarrow> (s1, Some e)
      | (Inr current_height, s1) \<Rightarrow>
          (case get_prune_height env s1 of
             (prune_height, s2) \<Rightarrow>
               (case bindE (py_add1 env (last_synced_height s2)) (\<lambda>n. py_max n prune_height) of
                  Inl e \<Rightarrow> (s2, Some e)
                | Inr start_height \<Rightarrow>
                    (case py_le current_height start_height of
                       Inl e \<Rightarrow> (s2, Some e)
                     | Inr True \<Rightarrow> (add_log Info_up_to_date s2, None)
                     | Inr False \<Rightarrow>
                         (case py_range start_height current_height of
                            Inl e \<Rightarrow> (s2, Some e)
                          | Inr heights \<Rightarrow> (sync_loop env heights s2, None))))))"

text \<open>
  \<^verbatim>\<open>sync_latest_blocks\<close>: the outer \<^verbatim>\<open>except Exception\<close> logs whatever the body raised.
  The second component is the exception the call raises to its caller.
\<close>

definition sync_latest_blocks :: "env \<Rightarrow> sync \<Rightarrow> sync \<times> exn option" where
  "sync_latest_blocks env s =
     (case sync_body env s of
        (s', None) \<Rightarrow> (s', None)
      | (s', Some e) \<Rightarrow> (add_log (Error_sync_failed e) s', None))"

section \<open>Provisioning: \<^verbatim>\<open>create_database\<close>\<close>

text \<open>
  The file system, as far as \<^verbatim>\<open>create_database.py\<close> touches it: a path holds nothing,
  a directory, a text file or a database file.
\<close>

datatype entry = Dir | TextFile string | DbFile database

type_synonym filesystem = "string \<Rightarrow> entry option"

text \<open>
  \<^verbatim>\<open>create_database(schema_file, db_name)\<close>. \<open>run_schema\<close> stands for SQLite: the
  database file that \<^verbatim>\<open>sqlite3.connect(db_name)\<close> and \<^verbatim>\<open>executescript(schema)\<close> leave at
  a path that held nothing (whether or not the script raised), \<open>None\<close> when no
  file could be made there. The removal is outside the \<^verbatim>\<open>try\<close>, so its exception (the
  path is a directory) is the call's; every exception inside the \<^verbatim>\<open>try\<close> (no schema
  file to read; a \<^verbatim>\<open>sqlite3.Error\<close>) is printed and the function returns. What the
  function prints is left out, and so is the check of the new file at the end, which
  only reads.
\<close>

definition create_database ::
  "(string \<Rightarrow> string \<Rightarrow> database option) \<Rightarrow> string \<Rightarrow> string option \<Rightarrow> filesystem
     \<Rightarrow> exn + filesystem" where
  "create_database run_schema schema_file db_name_opt fs =
     (let db_name = (case db_name_opt of None \<Rightarrow> ''bitcoin.db'' | Some n \<Rightarrow> n) in
      case (case fs db_name of
              None \<Rightarrow> Inr fs
            | Some Dir \<Rightarrow> Inl OSError
            | Some f \<Rightarrow> Inr (fs(db_name := None))) of
        Inl e \<Rightarrow> Inl e
      | Inr fs1 \<Rightarrow>
          (case fs1 schema_file of
             Some (TextFile schema) \<Rightarrow>
               (case run_schema db_name schema of
                  None \<Rightarrow> Inr fs1
                | Some d \<Rightarrow> Inr (fs1(db_name \<mapsto> DbFile d)))
           | _ \<Rightarrow> Inr fs1))"

section \<open>Properties and test inputs\<close>

text \<open>
  Referential integrity of a store: the \<open>c\<close> column of every child row holds the
  rowid of a row of the parent table.
\<close>

definition references :: "string \<Rightarrow> row list \<Rightarrow> row list \<Rightarrow> bool" where
  "references c children parents =
     list_all (\<lambda>r. list_ex (\<lambda>p. col c r = SInt (fst p)) parents) children"

definition ref_integrity :: "database \<Rightarrow> bool" where
  "ref_integrity d =
     (references ''block_id'' (transactions d) (blocks d)
      \<and> references ''transaction_id'' (inputs d) (transactions d)
      \<and> references ''transaction_id'' (outputs d) (transactions d))"


text \<open>The heights a log says were processed, and the RPC calls it says were made.\<close>

fun processed :: "logline list \<Rightarrow> int list" where
  "processed [] = []"
| "processed (Info_processing h # ls) = h # processed ls"
| "processed (l # ls) = processed ls"

fun rpc_calls :: "logline list \<Rightarrow> (string \<times> json list) list" where
  "rpc_calls [] = []"
| "rpc_calls (Debug_rpc m ps # ls) = (m, ps) # rpc_calls ls"
| "rpc_calls (l # ls) = rpc_calls ls"

text \<open>The log line of a \<^verbatim>\<open>break\<close> at a height.\<close>

fun stopped_at :: "int \<Rightarrow> logline \<Rightarrow> bool" where
  "stopped_at h (Error_failed_to_sync h') = (h' = h)"
| "stopped_at h (Error_processing h' e) = (h' = h)"
| "stopped_at h _ = False"

text \<open>Replies of a node: a result, and an error object, under a given HTTP status.\<close>

definition ok_reply :: "json \<Rightarrow> http_reply" where
  "ok_reply r =
     Reply 200 ''OK''
       (Some (JObj [(''result'', r), (''error'', JNull), (''id'', JStr ''curltest'')]))"

definition error_reply :: "nat \<Rightarrow> string \<Rightarrow> int \<Rightarrow> string \<Rightarrow> http_reply" where
  "error_reply status reason code msg =
     Reply status reason
       (Some (JObj [(''result'', JNull),
          (''error'', JObj [(''code'', JInt code), (''message'', JStr msg)]),
          (''id'', JStr ''curltest'')]))"

text \<open>
  A node that answers from tables: the chain height, the chain info, the reply to
  \<^verbatim>\<open>getblockhash\<close> by height and the reply to \<^verbatim>\<open>getblock\<close> by hash; no reply to
  anything else.
\<close>

definition table_node ::
  "json \<Rightarrow> json \<Rightarrow> (int \<times> http_reply) list \<Rightarrow> (json \<times> http_reply) list
     \<Rightarrow> string \<Rightarrow> json list \<Rightarrow> http_reply" where
  "table_node tip info hashes blks meth params =
     (if meth = ''getblockcount'' then ok_reply tip
      else if meth = ''getblockchaininfo'' then ok_reply info
      else if meth = ''getblockhash'' then
        (case params of
           [JInt h] \<Rightarrow> (case map_of hashes h of Some r \<Rightarrow> r | None \<Rightarrow> NoReply ''Connection refused'')
         | _ \<Rightarrow> NoReply ''Connection refused'')
      else if meth = ''getblock'' then
        (case params of
           [x, v] \<Rightarrow> (case map_of blks x of Some r \<Rightarrow> r | None \<Rightarrow> NoReply ''Connection refused'')
         | _ \<Rightarrow> NoReply ''Connection refused'')
      else NoReply ''Connection refused'')"

text \<open>An environment whose store opens and executes, commits and reads everything.\<close>

definition willing_env :: "(string \<Rightarrow> json list \<Rightarrow> http_reply) \<Rightarrow> env" where
  "willing_env node =
     \<lparr>rpc_url = ''http://127.0.0.1:8332/'', rpc_node = node,
      db_opens = (\<lambda>d. True), db_prepares = (\<lambda>t d. True),
      db_executes = (\<lambda>t d r. Accepted), db_commits = (\<lambda>d. True), db_reads = (\<lambda>d. True),
      float_repr = (\<lambda>r. ''0.0''), float_add1 = (\<lambda>r. r + 1)\<rparr>"

text \<open>An output with no address, a coinbase transaction with no fee, and a block around a
  list of transactions, with no previous and no next hash.\<close>

definition plain_output :: json where
  "plain_output =
     JObj [(''value'', JInt 50), (''n'', JInt 0),
           (''scriptPubKey'', JObj [(''type'', JStr ''pubkey'')])]"

definition coinbase_tx :: "string \<Rightarrow> json" where
  "coinbase_tx txid =
     JObj [(''txid'', JStr txid), (''version'', JInt 1), (''size'', JInt 134),
       (''weight'', JInt 536),
       (''vin'', JArr [JObj [(''coinbase'', JStr ''04ffff001d0104''),
                              (''sequence'', JInt 4294967295)]]),
       (''vout'', JArr [plain_output])]"

definition block_at :: "int \<Rightarrow> string \<Rightarrow> json list \<Rightarrow> json" where
  "block_at h hash txs =
     JObj [(''hash'', JStr hash), (''height'', JInt h), (''version'', JInt 1),
       (''time'', JInt 1231469665), (''size'', JInt 215), (''weight'', JInt 860),
       (''merkleroot'', JStr ''0e3e''), (''nonce'', JInt 2573394689),
       (''bits'', JStr ''1d00ffff''), (''difficulty'', JInt 1), (''tx'', JArr txs)]"

text \<open>
  A reply whose error object says the block is pruned, under the status 200 and under
  the status 500; nodes that answer with them, and nodes that hold two blocks, or none.
\<close>

definition pruned_reply :: http_reply where
  "pruned_reply = error_reply 200 ''OK'' (- 1) ''Block not available (pruned data)''"

definition two_block_env :: env where
  "two_block_env =
     willing_env (table_node (JInt 2) (JObj [(''chain'', JStr ''main'')])
       [(1, ok_reply (JStr ''0001'')), (2, ok_reply (JStr ''0002''))]
       [(JStr ''0001'', ok_reply (block_at 1 ''0001'' [coinbase_tx ''aa''])),
        (JStr ''0002'', ok_reply (block_at 2 ''0002'' [coinbase_tx ''bb'']))])"

definition pruned_then_down_env :: env where
  "pruned_then_down_env = willing_env (table_node (JInt 3) (JObj []) [(1, pruned_reply)] [])"

definition after_pruned_pass :: sync where
  "after_pruned_pass =
     fst (sync_latest_blocks pruned_then_down_env (new_sync pruned_then_down_env empty_db))"

definition down_env :: env where
  "down_env = willing_env (table_node (JInt 2) (JObj []) [] [])"


definition unreadable_env :: env where
  "unreadable_env = down_env\<lparr>db_reads := (\<lambda>d. False)\<rparr>"

text \<open>
  A node whose chain has height 2 and that answers for height 1 only, the state of a
  synchronizer on an empty store after one pass against it, and the same node once its
  chain has height 3.
\<close>

definition tip_down_env :: env where
  "tip_down_env =
     willing_env (table_node (JInt 2) (JObj [])
       [(1, ok_reply (JStr ''0001''))]
       [(JStr ''0001'', ok_reply (block_at 1 ''0001'' [coinbase_tx ''aa'']))])"

definition after_tip_failure :: sync where
  "after_tip_failure = fst (sync_latest_blocks tip_down_env (new_sync tip_down_env empty_db))"

definition grown_env :: env where
  "grown_env =
     willing_env (table_node (JInt 3) (JObj [])
       [(1, ok_reply (JStr ''0001''))]
       [(JStr ''0001'', ok_reply (block_at 1 ''0001'' [coinbase_tx ''aa'']))])"

text \<open>
  A store that refuses every row of the outputs table and leaves the open transaction
  as it is (a constraint of the schema), and a transaction whose second output has a
  list where the amount should be, which the sqlite3 module refuses to bind.
\<close>

definition no_outputs_env :: env where
  "no_outputs_env =
     down_env\<lparr>db_executes := (\<lambda>t w r. if t = Outputs then Refused else Accepted)\<rparr>"

definition unbindable_tx :: json where
  "unbindable_tx =
     JObj [(''txid'', JStr ''bb''), (''version'', JInt 1), (''size'', JInt 200),
       (''weight'', JInt 800),
       (''vin'', JArr [JObj [(''txid'', JStr ''aa''), (''vout'', JInt 0),
                              (''sequence'', JInt 4294967295)]]),
       (''vout'', JArr [
          JObj [(''value'', JInt 20), (''n'', JInt 0),
                (''scriptPubKey'', JObj [(''type'', JStr ''pubkey'')])],
          JObj [(''value'', JArr [JInt 30]), (''n'', JInt 1),
                (''scriptPubKey'', JObj [(''type'', JStr ''pubkey'')])]])]"

definition partial_block :: json where
  "partial_block = block_at 1 ''0001'' [coinbase_tx ''aa'', unbindable_tx]"

definition partial_block_env :: env where
  "partial_block_env =
     willing_env (table_node (JInt 2) (JObj [])
       [(1, ok_reply (JStr ''0001''))] [(JStr ''0001'', ok_reply partial_block)])"

text \<open>
  A block of three transactions, and an environment whose node has a chain of height 2
  and answers for height 1 with that block, and whose store fails on the transaction
  row of \<^verbatim>\<open>bb\<close> with an error after which SQLite has rolled the open transaction
  back (the disk is full).
\<close>

definition three_tx_block :: json where
  "three_tx_block =
     block_at 1 ''0001'' [coinbase_tx ''aa'', coinbase_tx ''bb'', coinbase_tx ''cc'']"

definition full_disk_env :: env where
  "full_disk_env =
     (willing_env (table_node (JInt 2) (JObj [])
        [(1, ok_reply (JStr ''0001''))] [(JStr ''0001'', ok_reply three_tx_block)]))
     \<lparr>db_executes :=
        (\<lambda>t w r. if t = Transactions \<and> map_of r ''txid'' = Some (SText ''bb'')
                  then Aborted else Accepted)\<rparr>"

text \<open>
  The store after the block of height 0 was written to an empty one, and a file system
  that holds it as \<^verbatim>\<open>bitcoin.db\<close> next to a schema file.
\<close>

definition genesis_db :: database where
  "genesis_db =
     fst (store_block (willing_env (\<lambda>meth params. NoReply [])) empty_db (block_at 0 ''0000'' []))"

definition old_files :: filesystem where
  "old_files =
     (\<lambda>path. None)(''bitcoin.db'' \<mapsto> DbFile genesis_db,
                     ''lastest_block.sql'' \<mapsto> TextFile ''CREATE TABLE blocks (id INTEGER PRIMARY KEY);'')"

section \<open>Lemmas\<close>

subsection \<open>Binding and inserting\<close>

lemma bindE_Inr: "bindE m f = Inr y \<Longrightarrow> \<exists>x. m = Inr x \<and> f x = Inr y"
  by (cases m) (simp_all add: bindE_def)

lemma bind_all_Cons:
  "bind_all (p # ps) = Inr vals \<Longrightarrow> \<exists>v vs. bind_param p = Inr v \<and> bind_all ps = Inr vs \<and> vals = v # vs"
  by (auto simp: bindE_def split: sum.splits)

lemma getitems_length: "getitems x ks = Inr vs \<Longrightarrow> length vs = length ks"
  by (induction ks arbitrary: vs) (auto simp: bindE_def split: sum.splits)

lemma bind_all_nth:
  "bind_all ps = Inr vals \<Longrightarrow>
     length vals = length ps \<and> (\<forall>i < length ps. bind_param (ps ! i) = Inr (vals ! i))"
proof (induction ps arbitrary: vals)
  case Nil
  then show ?case by simp
next
  case (Cons p ps)
  from bind_all_Cons [OF Cons.prems] obtain v vs where
    v: "bind_param p = Inr v" "bind_all ps = Inr vs" "vals = v # vs" by blast
  from Cons.IH [OF v(2)] v(1,3) show ?case
    by (auto simp: nth_Cons split: nat.splits)
qed

lemma col_zip_nth:
  "distinct cols \<Longrightarrow> length vals = length cols \<Longrightarrow> i < length cols \<Longrightarrow>
     col (cols ! i) (rid, zip cols vals) = vals ! i"
  by (simp add: col_def map_of_zip_nth)

lemma inserted_row:
  assumes "insert_row env t cols params d w = (w', Inr rid)"
  shows "\<exists>ps vals. params = Inr ps \<and> bind_all ps = Inr vals
           \<and> last (rows_of t w') = (rid, zip cols vals)"
proof -
  from assms obtain ps where ps: "params = Inr ps"
    and ex: "execute_insert env t cols ps d w = (w', Inr rid)"
    by (cases params) (simp_all add: insert_row_def)
  from ex obtain vals where v: "bind_all ps = Inr vals" "w' = add_row t (rid, zip cols vals) w"
    by (auto simp: execute_insert_def Let_def split: if_splits sum.splits verdict.splits)
  have "last (rows_of t w') = (rid, zip cols vals)" unfolding v(2) by (cases t) simp_all
  with ps v(1) show ?thesis by blast
qed

lemma block_params_optional:
  assumes "block_params (JObj b) = Inr ps"
  shows "length ps = 12
     \<and> (map_of b ''previousblockhash'' = None \<longrightarrow> ps ! 10 = JNull)
     \<and> (map_of b ''nextblockhash'' = None \<longrightarrow> ps ! 11 = JNull)"
proof -
  from assms obtain req where req: "getitems (JObj b)
      [''hash'', ''height'', ''version'', ''time'', ''size'', ''weight'', ''merkleroot'',
       ''nonce'', ''bits'', ''difficulty''] = Inr req"
    and ps: "ps = req @ [case map_of b ''previousblockhash'' of None \<Rightarrow> JNull | Some v \<Rightarrow> v,
                         case map_of b ''nextblockhash'' of None \<Rightarrow> JNull | Some v \<Rightarrow> v]"
    unfolding block_params_def by (auto simp del: getitems.simps dest!: bindE_Inr)
  from getitems_length [OF req] have len: "length req = 10" by simp
  show ?thesis unfolding ps using len by (simp add: nth_append)
qed

lemma transaction_params_fee:
  assumes "transaction_params (JObj t) block_id = Inr ps"
  shows "length ps = 6 \<and> (map_of t ''fee'' = None \<longrightarrow> ps ! 5 = JInt 0)"
proof -
  from assms obtain txid vsw where vsw: "getitems (JObj t) [''version'', ''size'', ''weight''] = Inr vsw"
    and ps: "ps = [txid, JInt block_id] @ vsw @ [case map_of t ''fee'' of None \<Rightarrow> JInt 0 | Some v \<Rightarrow> v]"
    unfolding transaction_params_def by (auto simp del: getitems.simps dest!: bindE_Inr)
  from getitems_length [OF vsw] have len: "length vsw = 3" by simp
  show ?thesis unfolding ps using len by (simp add: nth_append nth_Cons split: nat.splits)
qed

lemma block_params_dict: "block_params x = Inr ps \<Longrightarrow> \<exists>b. x = JObj b"
  by (cases x) (simp_all add: block_params_def bindE_def)

lemma transaction_params_dict: "transaction_params x block_id = Inr ps \<Longrightarrow> \<exists>t. x = JObj t"
  by (cases x) (simp_all add: transaction_params_def bindE_def)

lemma output_params_no_address:
  assumes "output_params env tx_id vout = Inr ps"
    and "bindE (py_getitem vout ''scriptPubKey'') (py_contains ''addresses'') = Inr False"
  shows "length ps = 5 \<and> ps ! 4 = JNull"
  using assms
  by (auto simp: output_params_def output_address_def bindE_def split: sum.splits if_splits)

subsection \<open>A block that fails leaves the store as it was\<close>

lemma store_block_rollback:
  "store_block env d block_data = (d', r) \<Longrightarrow> r \<noteq> Inr True \<Longrightarrow> d' = d"
  by (auto simp: store_block_def split: sum.splits if_splits)

subsection \<open>The loop and the pass\<close>

lemma processed_append: "processed (xs @ ys) = processed xs @ processed ys"
  by (induction xs rule: processed.induct) simp_all

lemma rpc_calls_append: "rpc_calls (xs @ ys) = rpc_calls xs @ rpc_calls ys"
  by (induction xs rule: rpc_calls.induct) simp_all

lemma fetch_and_store_facts:
  assumes "fetch_and_store env h s = (s1, r)"
  shows "last_synced_height s1 = last_synced_height s"
    and "\<exists>new. logged s1 = logged s @ new \<and> processed new = []"
    and "r \<noteq> Inr True \<Longrightarrow> db s1 = db s"
  using assms
  by (auto simp: fetch_and_store_def logged_rpc_call_def add_log_def
      split: sum.splits prod.splits dest: store_block_rollback)

lemma sync_loop_log:
  "\<exists>new. logged (sync_loop env hs s) = logged s @ new
     \<and> prefix (processed new) hs \<and> (hs \<noteq> [] \<longrightarrow> processed new \<noteq> [])
     \<and> (processed new = hs \<or> (new \<noteq> [] \<and> stopped_at (last (processed new)) (last new)))"
proof (induction hs arbitrary: s)
  case Nil
  show ?case by simp
next
  case (Cons h hs)
  obtain s1 r where f: "fetch_and_store env h (add_log (Info_processing h) s) = (s1, r)"
    by (cases "fetch_and_store env h (add_log (Info_processing h) s)")
  from fetch_and_store_facts(2) [OF f] obtain n1 where
    n1: "logged s1 = logged s @ Info_processing h # n1" "processed n1 = []"
    by (auto simp: add_log_def)
  have stop: ?case if res: "sync_loop env (h # hs) s = add_log l s1" and l: "stopped_at h l" for l
  proof -
    have "logged (sync_loop env (h # hs) s) = logged s @ (Info_processing h # n1 @ [l])"
      unfolding res by (simp add: add_log_def n1)
    moreover have "processed (Info_processing h # n1 @ [l]) = [h]"
      using l n1(2) by (cases l) (simp_all add: processed_append)
    ultimately show ?thesis using l
      by (intro exI [of _ "Info_processing h # n1 @ [l]"]) simp
  qed
  have cont: ?case if res: "sync_loop env (h # hs) s = sync_loop env hs (add_log l (s1\<lparr>last_synced_height := JInt h\<rparr>))"
    and l: "processed [l] = []" for l
  proof -
    let ?s2 = "add_log l (s1\<lparr>last_synced_height := JInt h\<rparr>)"
    from Cons.IH [of ?s2] obtain new2 where
      a: "logged (sync_loop env hs ?s2) = logged ?s2 @ new2"
      and b: "prefix (processed new2) hs"
      and c: "hs \<noteq> [] \<longrightarrow> processed new2 \<noteq> []"
      and d: "processed new2 = hs \<or> (new2 \<noteq> [] \<and> stopped_at (last (processed new2)) (last new2))"
      by blast
    let ?new = "Info_processing h # n1 @ [l] @ new2"
    have 1: "logged (sync_loop env (h # hs) s) = logged s @ ?new"
      unfolding res a by (simp add: add_log_def n1)
    have "processed ([l] @ new2) = processed new2"
      unfolding processed_append l by simp
    then have 2: "processed ?new = h # processed new2"
      using n1(2) by (simp add: processed_append)
    have 3: "processed ?new = h # hs \<or> (?new \<noteq> [] \<and> stopped_at (last (processed ?new)) (last ?new))"
    proof (cases "processed new2 = hs")
      case True
      then show ?thesis using 2 by simp
    next
      case False
      with d have e: "new2 \<noteq> []" "stopped_at (last (processed new2)) (last new2)" by simp_all
      from False b have "hs \<noteq> []" by auto
      with c have "processed new2 \<noteq> []" by simp
      then have "last (processed ?new) = last (processed new2)" unfolding 2 by simp
      moreover from e(1) have "last ?new = last new2" by simp
      ultimately show ?thesis using e(2) by simp
    qed
    show ?thesis
      using 1 2 3 b by (intro exI [of _ ?new]) simp
  qed
  show ?case
  proof (cases r)
    case (Inl e)
    show ?thesis
    proof (cases "pruned_data e")
      case True
      with f Inl show ?thesis by (intro cont [of "Warning_pruned h"]) simp_all
    next
      case False
      with f Inl show ?thesis by (intro stop [of "Error_processing h e"]) simp_all
    qed
  next
    case (Inr ok)
    show ?thesis
    proof (cases ok)
      case True
      with f Inr show ?thesis by (intro cont [of "Info_synced h"]) simp_all
    next
      case False
      with f Inr show ?thesis by (intro stop [of "Error_failed_to_sync h"]) simp_all
    qed
  qed
qed

lemma stopped_at_same: "stopped_at k l \<Longrightarrow> stopped_at h l \<Longrightarrow> k = h"
  by (cases l) simp_all

lemma sync_loop_stopped:
  assumes "logged (sync_loop env hs s) = logged s @ new" and "new \<noteq> []"
    and "stopped_at k (last new)"
  shows "processed new \<noteq> [] \<and> last (processed new) = k
     \<and> last_synced_height (sync_loop env hs s)
         = (case butlast (processed new) of
              [] \<Rightarrow> last_synced_height s
            | b # bs \<Rightarrow> JInt (last (b # bs)))"
  using assms
proof (induction hs arbitrary: s new)
  case Nil
  then show ?case by simp
next
  case (Cons h hs)
  obtain s1 r where f: "fetch_and_store env h (add_log (Info_processing h) s) = (s1, r)"
    by (cases "fetch_and_store env h (add_log (Info_processing h) s)")
  from fetch_and_store_facts(2) [OF f] obtain n1 where
    n1: "logged s1 = logged s @ Info_processing h # n1" "processed n1 = []"
    by (auto simp: add_log_def)
  from fetch_and_store_facts(1) [OF f] have fld: "last_synced_height s1 = last_synced_height s"
    by (simp add: add_log_def)
  have stop: ?case if res: "sync_loop env (h # hs) s = add_log l s1" and l: "stopped_at h l" for l
  proof -
    have "logged (sync_loop env (h # hs) s) = logged s @ (Info_processing h # n1 @ [l])"
      unfolding res by (simp add: add_log_def n1)
    with Cons.prems(1) have new: "new = Info_processing h # n1 @ [l]" by simp
    then have "last new = l" by simp
    with Cons.prems(3) l have k: "k = h" by (auto dest: stopped_at_same)
    have p: "processed new = [h]"
      unfolding new using l n1(2) by (cases l) (simp_all add: processed_append)
    have "last_synced_height (sync_loop env (h # hs) s) = last_synced_height s"
      unfolding res using fld by (simp add: add_log_def)
    with p k show ?thesis by simp
  qed
  have cont: ?case
    if res: "sync_loop env (h # hs) s = sync_loop env hs (add_log l (s1\<lparr>last_synced_height := JInt h\<rparr>))"
      and l: "processed [l] = []" and nl: "\<not> stopped_at k l" for l
  proof -
    let ?s2 = "add_log l (s1\<lparr>last_synced_height := JInt h\<rparr>)"
    from sync_loop_log [of env hs ?s2] obtain new2 where
      a: "logged (sync_loop env hs ?s2) = logged ?s2 @ new2" by blast
    have "logged (sync_loop env (h # hs) s) = logged s @ (Info_processing h # n1 @ [l] @ new2)"
      unfolding res a by (simp add: add_log_def n1)
    with Cons.prems(1) have new: "new = Info_processing h # n1 @ [l] @ new2" by simp
    have ne2: "new2 \<noteq> []"
    proof
      assume "new2 = []"
      with new have "last new = l" by simp
      with Cons.prems(3) nl show False by simp
    qed
    with new have "last new = last new2" by simp
    with Cons.prems(3) have st2: "stopped_at k (last new2)" by simp
    from Cons.IH [OF a ne2 st2] have
      ih: "processed new2 \<noteq> []" "last (processed new2) = k"
        "last_synced_height (sync_loop env hs ?s2)
          = (case butlast (processed new2) of
               [] \<Rightarrow> last_synced_height ?s2
             | b # bs \<Rightarrow> JInt (last (b # bs)))"
      by simp_all
    have "processed ([l] @ new2) = processed new2"
      unfolding processed_append l by simp
    then have p: "processed new = h # processed new2"
      unfolding new using n1(2) by (simp add: processed_append)
    have f2: "last_synced_height ?s2 = JInt h" by (simp add: add_log_def)
    show ?thesis
      unfolding p res using ih f2 by (auto split: list.splits)
  qed
  show ?case
  proof (cases r)
    case (Inl e)
    show ?thesis
    proof (cases "pruned_data e")
      case True
      with f Inl show ?thesis by (intro cont [of "Warning_pruned h"]) simp_all
    next
      case False
      with f Inl show ?thesis by (intro stop [of "Error_processing h e"]) simp_all
    qed
  next
    case (Inr ok)
    show ?thesis
    proof (cases ok)
      case True
      with f Inr show ?thesis by (intro cont [of "Info_synced h"]) simp_all
    next
      case False
      with f Inr show ?thesis by (intro stop [of "Error_failed_to_sync h"]) simp_all
    qed
  qed
qed

lemma get_prune_height_facts:
  assumes "get_prune_height env s = (v, s2)"
  shows "db s2 = db s" and "last_synced_height s2 = last_synced_height s"
    and "\<exists>n. logged s2 = logged s @ Debug_rpc ''getblockchaininfo'' [] # n
            \<and> processed n = [] \<and> rpc_calls n = []"
    and "v = fst (get_prune_height env s')"
  using assms
  by (auto simp: get_prune_height_def logged_rpc_call_def add_log_def split: sum.splits prod.splits)

lemma start_height_int:
  "bindE (py_add1 env (JInt l)) (\<lambda>n. py_max n (JInt p)) = Inr (NInt (max (l + 1) p))"
  by (simp add: bindE_def py_add1_def py_max_def max_def)

lemma sync_body_int:
  assumes l: "last_synced_height s = JInt l"
    and c: "make_rpc_call env ''getblockcount'' [] = Inr (JInt c)"
    and p: "fst (get_prune_height env s) = JInt p"
  shows "sync_body env s =
     (let s2 = snd (get_prune_height env (add_log (Debug_rpc ''getblockcount'' []) s))
      in if c \<le> max (l + 1) p then (add_log Info_up_to_date s2, None)
         else (sync_loop env [max (l + 1) p..c] s2, None))"
proof -
  obtain v s2 where g: "get_prune_height env (add_log (Debug_rpc ''getblockcount'' []) s) = (v, s2)"
    by (cases "get_prune_height env (add_log (Debug_rpc ''getblockcount'' []) s)")
  from get_prune_height_facts(4) [OF g, of s] p have v: "v = JInt p" by simp
  from get_prune_height_facts(2) [OF g] l have l2: "last_synced_height s2 = JInt l"
    by (simp add: add_log_def)
  show ?thesis
    by (simp add: sync_body_def logged_rpc_call_def c g v l2 start_height_int py_le_def py_range_def)
qed

lemma upto_first: "(a::int) \<le> c \<Longrightarrow> [a..c] \<noteq> [] \<and> hd [a..c] = a"
  by (simp add: upto_rec1)

lemma sync_pass_int:
  assumes l: "last_synced_height s = JInt l"
    and c: "make_rpc_call env ''getblockcount'' [] = Inr (JInt c)"
    and p: "fst (get_prune_height env s) = JInt p"
  shows "\<exists>pre s2. logged s2 = logged s @ pre \<and> processed pre = []
           \<and> rpc_calls pre = [(''getblockcount'', []), (''getblockchaininfo'', [])]
           \<and> db s2 = db s \<and> last_synced_height s2 = JInt l
           \<and> sync_latest_blocks env s =
               (if c \<le> max (l + 1) p then (add_log Info_up_to_date s2, None)
                else (sync_loop env [max (l + 1) p..c] s2, None))"
proof -
  let ?s1 = "add_log (Debug_rpc ''getblockcount'' []) s"
  obtain v s2 where g: "get_prune_height env ?s1 = (v, s2)"
    by (cases "get_prune_height env ?s1")
  from get_prune_height_facts(3) [OF g] obtain n where
    n: "logged s2 = logged ?s1 @ Debug_rpc ''getblockchaininfo'' [] # n"
       "processed n = []" "rpc_calls n = []" by blast
  let ?pre = "Debug_rpc ''getblockcount'' [] # Debug_rpc ''getblockchaininfo'' [] # n"
  have 1: "logged s2 = logged s @ ?pre" using n(1) by (simp add: add_log_def)
  have 2: "processed ?pre = []" "rpc_calls ?pre = [(''getblockcount'', []), (''getblockchaininfo'', [])]"
    using n(2,3) by simp_all
  have 3: "db s2 = db s" "last_synced_height s2 = JInt l"
    using get_prune_height_facts(1,2) [OF g] l by (simp_all add: add_log_def)
  have 4: "sync_latest_blocks env s =
               (if c \<le> max (l + 1) p then (add_log Info_up_to_date s2, None)
                else (sync_loop env [max (l + 1) p..c] s2, None))"
    by (simp add: sync_latest_blocks_def sync_body_int [OF l c p] g)
  from 1 2 3 4 show ?thesis by blast
qed

lemma sync_loop_step_skip:
  assumes "snd (fetch_and_store env h (add_log (Info_processing h) s)) = Inl e" and "pruned_data e"
  shows "sync_loop env (h # hs) s =
           sync_loop env hs (add_log (Warning_pruned h)
             ((fst (fetch_and_store env h (add_log (Info_processing h) s)))\<lparr>last_synced_height := JInt h\<rparr>))"
  using assms by (cases "fetch_and_store env h (add_log (Info_processing h) s)") simp

lemma upto_prefix:
  "prefix P [a..c] \<Longrightarrow> P \<noteq> [] \<Longrightarrow> P = [a..last P] \<and> a \<le> last P \<and> last P \<le> c"
proof (induction P arbitrary: a)
  case Nil
  then show ?case by simp
next
  case (Cons x P)
  from Cons.prems have ac: "a \<le> c" by (cases "a \<le> c") auto
  then have up: "[a..c] = a # [a + 1..c]" by (simp add: upto_rec1)
  with Cons.prems(1) have x: "x = a" and pre: "prefix P [a + 1..c]" by simp_all
  show ?case
  proof (cases "P = []")
    case True
    with x ac show ?thesis by simp
  next
    case False
    from Cons.IH [OF pre False] have ih: "P = [a + 1..last P]" "a + 1 \<le> last P" "last P \<le> c"
      by simp_all
    have "[a..last P] = a # [a + 1..last P]" using ih(2) by (simp add: upto_rec1)
    with ih x False show ?thesis by simp
  qed
qed

lemma butlast_upto: "(a::int) \<le> k \<Longrightarrow> butlast [a..k] = [a..k - 1]"
  by (simp add: upto_rec2)

lemma pass_first_height:
  assumes l: "last_synced_height s = JInt l"
    and c: "make_rpc_call env ''getblockcount'' [] = Inr (JInt c)"
    and p: "fst (get_prune_height env s) = JInt p"
    and lt: "max (l + 1) p < c"
  shows "\<exists>new. logged (fst (sync_latest_blocks env s)) = logged s @ new
           \<and> processed new \<noteq> [] \<and> hd (processed new) = max (l + 1) p"
proof -
  from sync_pass_int [OF l c p] lt obtain pre s2 where
    pre: "logged s2 = logged s @ pre" "processed pre = []"
    and eq: "sync_latest_blocks env s = (sync_loop env [max (l + 1) p..c] s2, None)"
    by auto
  let ?hs = "[max (l + 1) p..c]"
  from sync_loop_log [of env ?hs s2] obtain new where
    a: "logged (sync_loop env ?hs s2) = logged s2 @ new"
    and b: "prefix (processed new) ?hs"
    and c': "?hs \<noteq> [] \<longrightarrow> processed new \<noteq> []"
    by blast
  from lt have le: "max (l + 1) p \<le> c" by linarith
  from upto_first [OF le] have ne: "?hs \<noteq> []" and hd0: "hd ?hs = max (l + 1) p"
    by blast+
  from ne c' have pn: "processed new \<noteq> []" by blast
  from b obtain zs where zs: "?hs = processed new @ zs" by (auto simp: prefix_def)
  have "hd ?hs = hd (processed new)" unfolding zs using pn by simp
  with hd0 have hd: "hd (processed new) = max (l + 1) p" by simp
  show ?thesis
    using a pre pn hd by (intro exI [of _ "pre @ new"]) (simp add: eq processed_append)
qed

lemma pass_up_to_date:
  assumes l: "last_synced_height s = JInt l"
    and c: "make_rpc_call env ''getblockcount'' [] = Inr (JInt c)"
    and p: "fst (get_prune_height env s) = JInt p"
    and le: "c \<le> max (l + 1) p"
  shows "\<exists>new. logged (fst (sync_latest_blocks env s)) = logged s @ new
           \<and> processed new = []
           \<and> rpc_calls new = [(''getblockcount'', []), (''getblockchaininfo'', [])]
           \<and> db (fst (sync_latest_blocks env s)) = db s
           \<and> last_synced_height (fst (sync_latest_blocks env s)) = JInt l"
proof -
  from sync_pass_int [OF l c p] le obtain pre s2 where
    pre: "logged s2 = logged s @ pre" "processed pre = []"
      "rpc_calls pre = [(''getblockcount'', []), (''getblockchaininfo'', [])]"
    and s2: "db s2 = db s" "last_synced_height s2 = JInt l"
    and eq: "sync_latest_blocks env s = (add_log Info_up_to_date s2, None)"
    by auto
  show ?thesis
    using pre s2
    by (intro exI [of _ "pre @ [Info_up_to_date]"])
       (simp add: eq add_log_def processed_append rpc_calls_append)
qed

lemma pass_stopped:
  assumes l: "last_synced_height s = JInt l"
    and c: "make_rpc_call env ''getblockcount'' [] = Inr (JInt c)"
    and p: "fst (get_prune_height env s) = JInt p"
    and lg: "logged (fst (sync_latest_blocks env s)) = logged s @ new"
    and ne: "new \<noteq> []" and st: "stopped_at k (last new)"
  shows "processed new \<noteq> [] \<and> last (processed new) = k
     \<and> max (l + 1) p \<le> k \<and> k \<le> c
     \<and> last_synced_height (fst (sync_latest_blocks env s))
         = JInt (if k = max (l + 1) p then l else k - 1)"
proof -
  let ?a = "max (l + 1) p"
  from sync_pass_int [OF l c p] obtain pre s2 where
    pre: "logged s2 = logged s @ pre" "processed pre = []"
    and s2: "last_synced_height s2 = JInt l"
    and eq: "sync_latest_blocks env s =
               (if c \<le> ?a then (add_log Info_up_to_date s2, None)
                else (sync_loop env [?a..c] s2, None))"
    by blast
  have run: "\<not> c \<le> ?a"
  proof
    assume "c \<le> ?a"
    with eq lg pre have "new = pre @ [Info_up_to_date]" by (simp add: add_log_def)
    with st show False by simp
  qed
  with eq have eq': "fst (sync_latest_blocks env s) = sync_loop env [?a..c] s2" by simp
  from sync_loop_log [of env "[?a..c]" s2] obtain nl where
    a: "logged (sync_loop env [?a..c] s2) = logged s2 @ nl"
    and b: "prefix (processed nl) [?a..c]"
    and c': "[?a..c] \<noteq> [] \<longrightarrow> processed nl \<noteq> []"
    by blast
  from run have "?a \<le> c" by linarith
  from upto_first [OF this] c' have pn: "processed nl \<noteq> []" by blast
  then have nn: "nl \<noteq> []" by auto
  from lg a pre have new: "new = pre @ nl" unfolding eq' by simp
  with nn st have st': "stopped_at k (last nl)" by simp
  from sync_loop_stopped [OF a nn st'] have
    k: "last (processed nl) = k"
    and f: "last_synced_height (sync_loop env [?a..c] s2)
         = (case butlast (processed nl) of
              [] \<Rightarrow> last_synced_height s2
            | b # bs \<Rightarrow> JInt (last (b # bs)))" by simp_all
  from upto_prefix [OF b pn] k have
    P: "processed nl = [?a..k]" and ak: "?a \<le> k" and kc: "k \<le> c" by simp_all
  have fld: "last_synced_height (sync_loop env [?a..c] s2) = JInt (if k = ?a then l else k - 1)"
  proof (cases "k = ?a")
    case True
    then have "butlast (processed nl) = []" unfolding P by simp
    with f s2 True show ?thesis by simp
  next
    case False
    with ak have lt: "?a \<le> k - 1" by linarith
    have bl: "butlast (processed nl) = [?a..k - 1]" unfolding P using ak by (rule butlast_upto)
    from lt have "[?a..k - 1] = [?a..k - 1 - 1] @ [k - 1]" by (simp add: upto_rec2)
    then have "[?a..k - 1] \<noteq> [] \<and> last [?a..k - 1] = k - 1" by simp
    with f bl False show ?thesis by (auto split: list.splits)
  qed
  have "processed new = processed nl" unfolding new by (simp add: processed_append pre)
  with pn k ak kc fld show ?thesis unfolding eq' by simp
qed

subsection \<open>Texts of exceptions\<close>








subsection \<open>The height tracker\<close>

lemma fold_sql_max_int:
  "fold (\<lambda>v m. if sql_less m v then v else m) (map SInt hs) (SInt m) = SInt (fold max hs m)"
  by (induction hs arbitrary: m) (auto simp: max_def)

lemma sql_max_ints:
  "sql_max (map SInt hs) = (case hs of [] \<Rightarrow> SNull | h # hs' \<Rightarrow> SInt (Max (set hs)))"
proof (cases hs)
  case Nil
  then show ?thesis by (simp add: sql_max_def)
next
  case (Cons h hs')
  have "fold max hs' h = Max (set (h # hs'))"
    by (rule Max.set_eq_fold [symmetric])
  then show ?thesis using Cons by (simp add: sql_max_def fold_sql_max_int)
qed

section \<open>The claims\<close>

subsection \<open>C1: a block and its nested rows as one atomic unit\<close>

text \<open>
  Claim C1 says that \<^verbatim>\<open>_store_block\<close> makes the Block row and all of its nested
  Transaction, Input and Output rows visible together or not at all, so that the
  height tracker never reports a height whose block is only partly stored. The writer
  does open one transaction and commits once, and \<^verbatim>\<open>_store_transaction\<close> reports a
  \<^verbatim>\<open>sqlite3.Error\<close> by returning False; but \<^verbatim>\<open>_store_block\<close> drops that result and
  commits. Two runs of the code: a payload whose second transaction has an output that
  cannot be bound (three outputs in the payload, two stored), and a well-formed payload
  on a store that refuses the rows of the outputs table (one output in the payload,
  none stored). Both return True; after a pass over the first, the tracked height
  and the height tracker report 1.
\<close>

theorem partial_block_is_committed:
  "snd (store_block down_env empty_db partial_block) = Inr True
   \<and> length (blocks (fst (store_block down_env empty_db partial_block))) = 1
   \<and> length (transactions (fst (store_block down_env empty_db partial_block))) = 2
   \<and> length (outputs (fst (store_block down_env empty_db partial_block))) = 2
   \<and> snd (store_block no_outputs_env empty_db (block_at 1 ''0001'' [coinbase_tx ''aa'']))
       = Inr True
   \<and> length (transactions (fst (store_block no_outputs_env empty_db
        (block_at 1 ''0001'' [coinbase_tx ''aa''])))) = 1
   \<and> outputs (fst (store_block no_outputs_env empty_db
        (block_at 1 ''0001'' [coinbase_tx ''aa'']))) = []
   \<and> last_synced_height (fst (sync_latest_blocks partial_block_env
        (new_sync partial_block_env empty_db))) = JInt 1
   \<and> length (outputs (db (fst (sync_latest_blocks partial_block_env
        (new_sync partial_block_env empty_db))))) = 2
   \<and> get_last_synced_height partial_block_env
        (db (fst (sync_latest_blocks partial_block_env (new_sync partial_block_env empty_db))))
      = JInt 1"
  by code_simp

subsection \<open>C2: where a pass takes the last synced height from\<close>

text \<open>
  Claim C2 says that every pass begins by recomputing the last synced height from the
  store and trusts no value held in memory. The code reads the store once, in the
  constructor, and every pass uses the field. After a first pass in which height 1 was
  skipped as pruned and height 2 failed, the field is 1 and the store is empty, so the
  height tracker would answer 0: the next pass processes height 2 first, where a pass
  that recomputed would begin at height 1.
\<close>

theorem cached_height_counterexample:
  "last_synced_height after_pruned_pass = JInt 1
   \<and> get_last_synced_height pruned_then_down_env (db after_pruned_pass) = JInt 0
   \<and> processed (drop (length (logged after_pruned_pass))
        (logged (fst (sync_latest_blocks pruned_then_down_env after_pruned_pass)))) = [2]
   \<and> processed (drop (length (logged after_pruned_pass))
        (logged (fst (sync_latest_blocks pruned_then_down_env
           (after_pruned_pass\<lparr>last_synced_height :=
              get_last_synced_height pruned_then_down_env (db after_pruned_pass)\<rparr>))))) = [1, 2]"
  by code_simp


text \<open>
  Claim C2, amended: the constructor sets the field \<^verbatim>\<open>last_synced_height\<close> to what the
  height tracker reads from the store; a pass takes the field as it finds it. With an
  integer field \<open>l\<close>, a chain height \<open>c\<close> and a prune height \<open>p\<close>, and
  \<open>max (l + 1) p < c\<close>, the first height the pass processes is \<open>max (l + 1) p\<close>,
  whatever store \<open>d'\<close> is behind the object.
\<close>

theorem sync_pass_starts_from_field:
  "last_synced_height (new_sync env d) = get_last_synced_height env d
   \<and> (last_synced_height s = JInt l
        \<and> make_rpc_call env ''getblockcount'' [] = Inr (JInt c)
        \<and> fst (get_prune_height env s) = JInt p \<and> max (l + 1) p < c \<longrightarrow>
        (\<exists>new. logged (fst (sync_latest_blocks env (s\<lparr>db := d'\<rparr>))) = logged s @ new
           \<and> processed new \<noteq> [] \<and> hd (processed new) = max (l + 1) p))"
proof (intro conjI impI)
  show "last_synced_height (new_sync env d) = get_last_synced_height env d"
    by (simp add: new_sync_def)
next
  assume h: "last_synced_height s = JInt l
        \<and> make_rpc_call env ''getblockcount'' [] = Inr (JInt c)
        \<and> fst (get_prune_height env s) = JInt p \<and> max (l + 1) p < c"
  let ?s = "s\<lparr>db := d'\<rparr>"
  have 1: "last_synced_height ?s = JInt l" using h by simp
  have 2: "fst (get_prune_height env ?s) = JInt p"
    using h get_prune_height_facts(4) [of env ?s _ _ s]
    by (metis prod.collapse)
  from sync_pass_int [OF 1 _ 2, of c] h obtain pre s2 where
    pre: "logged s2 = logged ?s @ pre" "processed pre = []"
    and eq: "sync_latest_blocks env ?s = (sync_loop env [max (l + 1) p..c] s2, None)"
    by auto
  let ?hs = "[max (l + 1) p..c]"
  from sync_loop_log [of env ?hs s2] obtain new where
    a: "logged (sync_loop env ?hs s2) = logged s2 @ new"
    and b: "prefix (processed new) ?hs"
    and c': "?hs \<noteq> [] \<longrightarrow> processed new \<noteq> []"
    by blast
  from h have le: "max (l + 1) p \<le> c" by linarith
  from upto_first [OF le] have ne: "?hs \<noteq> []" and hd0: "hd ?hs = max (l + 1) p"
    by blast+
  from ne c' have pn: "processed new \<noteq> []" by blast
  from b obtain zs where zs: "?hs = processed new @ zs" by (auto simp: prefix_def)
  have "hd ?hs = hd (processed new)" unfolding zs using pn by simp
  with hd0 have hd: "hd (processed new) = max (l + 1) p" by simp
  show "\<exists>new. logged (fst (sync_latest_blocks env ?s)) = logged s @ new
           \<and> processed new \<noteq> [] \<and> hd (processed new) = max (l + 1) p"
    using a pre pn hd by (intro exI [of _ "pre @ new"]) (simp add: eq processed_append)
qed


theorem sync_pass_starts_from_field_witness:
  "last_synced_height after_pruned_pass = JInt 1
   \<and> make_rpc_call pruned_then_down_env ''getblockcount'' [] = Inr (JInt 3)
   \<and> fst (get_prune_height pruned_then_down_env after_pruned_pass) = JInt 0
   \<and> max (1 + 1) 0 < (3::int)
   \<and> last_synced_height (new_sync pruned_then_down_env genesis_db)
        = get_last_synced_height pruned_then_down_env genesis_db
   \<and> (\<exists>new. logged (fst (sync_latest_blocks pruned_then_down_env
                  (after_pruned_pass\<lparr>db := genesis_db\<rparr>)))
               = logged after_pruned_pass @ new
          \<and> processed new \<noteq> [] \<and> hd (processed new) = 2)"
proof -
  have 1: "last_synced_height after_pruned_pass = JInt 1" by code_simp
  have 2: "make_rpc_call pruned_then_down_env ''getblockcount'' [] = Inr (JInt 3)" by code_simp
  have 3: "fst (get_prune_height pruned_then_down_env after_pruned_pass) = JInt 0" by code_simp
  have 4: "max (1 + 1) 0 < (3::int)" by simp
  from sync_pass_starts_from_field [of pruned_then_down_env genesis_db after_pruned_pass 1 3 0 genesis_db]
    1 2 3 4
  show ?thesis by simp
qed


subsection \<open>C3: the range of a pass\<close>

text \<open>
  Claim C3: the start height of a pass is \<open>max (l + 1) p\<close>, for the tracked height \<open>l\<close>
  and the prune height \<open>p\<close>. When the chain height \<open>c\<close> is at most the start height,
  the pass makes the two probing calls only, processes no height and leaves the store
  and the tracked height as they were. Otherwise the heights it processes are, in
  increasing order, the range from the start height to \<open>c\<close>: all of it, or the part of
  it up to the height at which the loop was stopped by a failure (claim C5). \<open>new\<close>
  is what the pass adds to the log.
\<close>

theorem sync_pass_range:
  assumes l: "last_synced_height s = JInt l"
    and c: "make_rpc_call env ''getblockcount'' [] = Inr (JInt c)"
    and p: "fst (get_prune_height env s) = JInt p"
  shows "\<exists>new. logged (fst (sync_latest_blocks env s)) = logged s @ new
     \<and> (c \<le> max (l + 1) p \<longrightarrow>
          processed new = []
          \<and> rpc_calls new = [(''getblockcount'', []), (''getblockchaininfo'', [])]
          \<and> db (fst (sync_latest_blocks env s)) = db s
          \<and> last_synced_height (fst (sync_latest_blocks env s)) = JInt l)
     \<and> (max (l + 1) p < c \<longrightarrow>
          processed new \<noteq> [] \<and> hd (processed new) = max (l + 1) p
          \<and> prefix (processed new) [max (l + 1) p..c]
          \<and> sorted_wrt (<) (processed new)
          \<and> (processed new = [max (l + 1) p..c]
              \<or> stopped_at (last (processed new)) (last new)))"
proof -
  from sync_pass_int [OF l c p] obtain pre s2 where
    pre: "logged s2 = logged s @ pre" "processed pre = []"
      "rpc_calls pre = [(''getblockcount'', []), (''getblockchaininfo'', [])]"
    and s2: "db s2 = db s" "last_synced_height s2 = JInt l"
    and eq: "sync_latest_blocks env s =
               (if c \<le> max (l + 1) p then (add_log Info_up_to_date s2, None)
                else (sync_loop env [max (l + 1) p..c] s2, None))"
    by blast
  show ?thesis
  proof (cases "c \<le> max (l + 1) p")
    case True
    then show ?thesis
      using pre s2
      by (intro exI [of _ "pre @ [Info_up_to_date]"])
         (auto simp: eq add_log_def processed_append rpc_calls_append)
  next
    case False
    let ?hs = "[max (l + 1) p..c]"
    from False have le: "max (l + 1) p \<le> c" by linarith
    from upto_first [OF le] have ne: "?hs \<noteq> []" and hd0: "hd ?hs = max (l + 1) p"
      by blast+
    from sync_loop_log [of env ?hs s2] obtain new where
      a: "logged (sync_loop env ?hs s2) = logged s2 @ new"
      and b: "prefix (processed new) ?hs"
      and c': "?hs \<noteq> [] \<longrightarrow> processed new \<noteq> []"
      and d: "processed new = ?hs \<or> (new \<noteq> [] \<and> stopped_at (last (processed new)) (last new))"
      by blast
    from c' ne have pn: "processed new \<noteq> []" by simp
    then have nn: "new \<noteq> []" by auto
    from b obtain zs where zs: "?hs = processed new @ zs" by (auto simp: prefix_def)
    have hd: "hd (processed new) = max (l + 1) p"
    proof -
      have "hd ?hs = hd (processed new)" unfolding zs using pn by simp
      with hd0 show ?thesis by simp
    qed
    have "sorted_wrt (<) ?hs" by simp
    then have so: "sorted_wrt (<) (processed new)"
      unfolding zs by (simp add: sorted_wrt_append)
    show ?thesis
      using False a b pn hd so d nn pre
      by (intro exI [of _ "pre @ new"]) (auto simp: eq processed_append)
  qed
qed


theorem sync_pass_range_witness:
  "last_synced_height (new_sync two_block_env empty_db) = JInt 0
   \<and> make_rpc_call two_block_env ''getblockcount'' [] = Inr (JInt 2)
   \<and> fst (get_prune_height two_block_env (new_sync two_block_env empty_db)) = JInt 0
   \<and> (\<exists>new. logged (fst (sync_latest_blocks two_block_env (new_sync two_block_env empty_db)))
               = logged (new_sync two_block_env empty_db) @ new
          \<and> processed new \<noteq> [] \<and> hd (processed new) = 1
          \<and> prefix (processed new) [1, 2]
          \<and> sorted_wrt (<) (processed new)
          \<and> (processed new = [1, 2] \<or> stopped_at (last (processed new)) (last new)))
   \<and> processed (logged (fst (sync_latest_blocks two_block_env (new_sync two_block_env empty_db))))
        = [1, 2]"
proof -
  have 1: "last_synced_height (new_sync two_block_env empty_db) = JInt 0" by code_simp
  have 2: "make_rpc_call two_block_env ''getblockcount'' [] = Inr (JInt 2)" by code_simp
  have 3: "fst (get_prune_height two_block_env (new_sync two_block_env empty_db)) = JInt 0"
    by code_simp
  have 4: "processed (logged (fst (sync_latest_blocks two_block_env (new_sync two_block_env empty_db))))
        = [1, 2]" by code_simp
  have 5: "[1..2] = [1, 2::int]" by (simp add: upto.simps)
  from sync_pass_range [OF 1 2 3] 1 2 3 4 5 show ?thesis by simp
qed


subsection \<open>C4: a pruned height is skipped\<close>

text \<open>
  Claim C4: when fetching or storing the block of height \<open>h\<close> raises an exception whose
  text has the phrase for pruned data, nothing is stored for that height, the loop goes
  on over the remaining heights from a state whose tracked height is \<open>h\<close> (so a loop
  that ends there leaves the tracked height \<open>h\<close> and the store as it was), and the next
  height, if there is one, is processed.
\<close>

theorem pruned_height_is_skipped:
  assumes r: "snd (fetch_and_store env h (add_log (Info_processing h) s)) = Inl e"
    and pr: "pruned_data e"
  shows "db (fst (fetch_and_store env h (add_log (Info_processing h) s))) = db s
     \<and> sync_loop env (h # hs) s =
         sync_loop env hs (add_log (Warning_pruned h)
           ((fst (fetch_and_store env h (add_log (Info_processing h) s)))\<lparr>last_synced_height := JInt h\<rparr>))
     \<and> last_synced_height (sync_loop env [h] s) = JInt h
     \<and> db (sync_loop env [h] s) = db s
     \<and> (\<exists>new rest. logged (sync_loop env (h # hs) s) = logged s @ new
           \<and> processed new = h # rest \<and> prefix rest hs \<and> (hs \<noteq> [] \<longrightarrow> rest \<noteq> []))"
proof -
  let ?s0 = "add_log (Info_processing h) s"
  obtain s1 where f: "fetch_and_store env h ?s0 = (s1, Inl e)"
    using r by (cases "fetch_and_store env h ?s0") simp
  have d: "db s1 = db s"
    using fetch_and_store_facts(3) [OF f] by (simp add: add_log_def)
  from fetch_and_store_facts(2) [OF f] obtain n1 where
    n1: "logged s1 = logged s @ Info_processing h # n1" "processed n1 = []"
    by (auto simp: add_log_def)
  let ?s2 = "add_log (Warning_pruned h) (s1\<lparr>last_synced_height := JInt h\<rparr>)"
  have step: "sync_loop env (h # hs) s = sync_loop env hs ?s2" for hs
    using sync_loop_step_skip [OF r pr] f by simp
  from sync_loop_log [of env hs ?s2] obtain new2 where
    a: "logged (sync_loop env hs ?s2) = logged ?s2 @ new2"
    and b: "prefix (processed new2) hs"
    and c: "hs \<noteq> [] \<longrightarrow> processed new2 \<noteq> []"
    by blast
  let ?new = "Info_processing h # n1 @ [Warning_pruned h] @ new2"
  have 1: "logged (sync_loop env (h # hs) s) = logged s @ ?new"
    unfolding step a by (simp add: add_log_def n1)
  have 2: "processed ?new = h # processed new2"
    using n1(2) by (simp add: processed_append)
  have 3: "last_synced_height (sync_loop env [h] s) = JInt h" "db (sync_loop env [h] s) = db s"
    unfolding step using d by (simp_all add: add_log_def)
  show ?thesis
    using d step [of hs] 3 1 2 b c f by auto
qed


theorem pruned_height_is_skipped_witness:
  "snd (fetch_and_store pruned_then_down_env 1
          (add_log (Info_processing 1) (new_sync pruned_then_down_env empty_db)))
     = Inl (RpcError (''RPC error: '' @ py_str (\<lambda>r. ''0.0'')
              (JObj [(''code'', JInt (- 1)),
                     (''message'', JStr ''Block not available (pruned data)'')])))
   \<and> pruned_data (RpcError (''RPC error: '' @ py_str (\<lambda>r. ''0.0'')
              (JObj [(''code'', JInt (- 1)),
                     (''message'', JStr ''Block not available (pruned data)'')])))
   \<and> last_synced_height (sync_loop pruned_then_down_env [1] (new_sync pruned_then_down_env empty_db))
       = JInt 1
   \<and> db (sync_loop pruned_then_down_env [1] (new_sync pruned_then_down_env empty_db)) = empty_db
   \<and> (\<exists>new rest. logged (sync_loop pruned_then_down_env [1, 2]
                       (new_sync pruned_then_down_env empty_db))
                    = logged (new_sync pruned_then_down_env empty_db) @ new
          \<and> processed new = 1 # rest \<and> prefix rest [2] \<and> rest \<noteq> [])"
proof -
  let ?e = "RpcError (''RPC error: '' @ py_str (\<lambda>r. ''0.0'')
              (JObj [(''code'', JInt (- 1)),
                     (''message'', JStr ''Block not available (pruned data)'')]))"
  have 1: "snd (fetch_and_store pruned_then_down_env 1
          (add_log (Info_processing 1) (new_sync pruned_then_down_env empty_db))) = Inl ?e"
    by code_simp
  have 2: "pruned_data ?e" by code_simp
  have 3: "db (new_sync pruned_then_down_env empty_db) = empty_db" by (simp add: new_sync_def)
  note t = pruned_height_is_skipped [OF 1 2, of "[2]"]
  from t have a: "last_synced_height
      (sync_loop pruned_then_down_env [1] (new_sync pruned_then_down_env empty_db)) = JInt 1"
    by blast
  from t have "db (sync_loop pruned_then_down_env [1] (new_sync pruned_then_down_env empty_db))
      = db (new_sync pruned_then_down_env empty_db)" by blast
  then have b: "db (sync_loop pruned_then_down_env [1] (new_sync pruned_then_down_env empty_db))
      = empty_db" unfolding 3 .
  have ne: "[2::int] \<noteq> []" by simp
  from t ne have c: "\<exists>new rest. logged (sync_loop pruned_then_down_env [1, 2]
                       (new_sync pruned_then_down_env empty_db))
                    = logged (new_sync pruned_then_down_env empty_db) @ new
          \<and> processed new = 1 # rest \<and> prefix rest [2] \<and> rest \<noteq> []"
    by blast
  from 1 2 a b c show ?thesis by blast
qed


subsection \<open>C5: any other failure stops the loop\<close>

text \<open>
  Claim C5 says that a failure other than the one for pruned data stops the loop and
  is surfaced to the caller of the pass, and that the next pass recomputes its start
  from the height tracker. The loop does stop; the error is written to the log and the
  call returns normally. With a node that does not answer \<^verbatim>\<open>getblockhash\<close>, the pass
  raises nothing and its last log line is the error.
\<close>

theorem error_not_raised_counterexample:
  "snd (fetch_and_store down_env 1 (add_log (Info_processing 1) (new_sync down_env empty_db)))
     = Inl (ConnectionError ''Connection refused'')
   \<and> snd (sync_latest_blocks down_env (new_sync down_env empty_db)) = None
   \<and> last (logged (fst (sync_latest_blocks down_env (new_sync down_env empty_db))))
       = Error_processing 1 (ConnectionError ''Connection refused'')"
  by code_simp


text \<open>
  Claim C5, amended. In the loop: when the attempt at height \<open>h\<close> ends with
  \<^verbatim>\<open>_store_block\<close> returning False, or with an exception whose text lacks the phrase for
  pruned data, the loop stops there: \<open>h\<close> is the only height processed, the store and
  the tracked height are what they were before the attempt, and the last line logged is
  the error line of \<open>h\<close>. A pass raises nothing to its caller, whatever state \<open>u\<close> it
  starts from.

  The pass and the one after it: let a pass from the tracked height \<open>l\<close>, with chain
  height \<open>c\<close> and prune height \<open>p\<close>, add the lines \<open>added\<close> to the log, the last of them
  the error line of a height \<open>k\<close>. Then \<open>k\<close> is the last height the pass processed, it
  lies between the start height \<open>max (l + 1) p\<close> and \<open>c\<close>, and the tracked height is
  \<open>l\<close> still when \<open>k\<close> is the start height, and \<open>k - 1\<close> otherwise. The next pass on
  the same object, against an environment \<open>env'\<close> with chain height \<open>c'\<close> and the same
  prune height, has the start height \<open>k\<close>: it processes \<open>k\<close> first when \<open>k < c'\<close>, and
  when \<open>c' \<le> k\<close> it makes the two probing calls, processes no height and leaves the
  store and the tracked height as they are. So the failed height is tried again only
  once the chain is higher than it: a failure at the chain tip is not retried while the
  tip stays where it is.
\<close>

theorem other_failure_stops_the_loop:
  "(snd (fetch_and_store env h (add_log (Info_processing h) s)) = r
      \<and> (r = Inr False \<or> (\<exists>e. r = Inl e \<and> \<not> pruned_data e)) \<longrightarrow>
      db (sync_loop env (h # hs) s) = db s
      \<and> last_synced_height (sync_loop env (h # hs) s) = last_synced_height s
      \<and> (\<exists>new. logged (sync_loop env (h # hs) s) = logged s @ new
            \<and> processed new = [h]
            \<and> last new = (case r of Inl e \<Rightarrow> Error_processing h e
                                    | Inr ok \<Rightarrow> Error_failed_to_sync h)
            \<and> stopped_at h (last new)))
   \<and> snd (sync_latest_blocks env u) = None
   \<and> (last_synced_height u = JInt l
      \<and> make_rpc_call env ''getblockcount'' [] = Inr (JInt c)
      \<and> fst (get_prune_height env u) = JInt p
      \<and> logged (fst (sync_latest_blocks env u)) = logged u @ added
      \<and> added \<noteq> [] \<and> stopped_at k (last added) \<longrightarrow>
      processed added \<noteq> [] \<and> last (processed added) = k
      \<and> max (l + 1) p \<le> k \<and> k \<le> c
      \<and> last_synced_height (fst (sync_latest_blocks env u))
          = JInt (if k = max (l + 1) p then l else k - 1)
      \<and> (make_rpc_call env' ''getblockcount'' [] = Inr (JInt c')
          \<and> fst (get_prune_height env' (fst (sync_latest_blocks env u))) = JInt p \<longrightarrow>
          (\<exists>new1. logged (fst (sync_latest_blocks env' (fst (sync_latest_blocks env u))))
                     = logged (fst (sync_latest_blocks env u)) @ new1
             \<and> (k < c' \<longrightarrow> processed new1 \<noteq> [] \<and> hd (processed new1) = k)
             \<and> (c' \<le> k \<longrightarrow>
                  processed new1 = []
                  \<and> rpc_calls new1 = [(''getblockcount'', []), (''getblockchaininfo'', [])]
                  \<and> db (fst (sync_latest_blocks env' (fst (sync_latest_blocks env u))))
                      = db (fst (sync_latest_blocks env u))
                  \<and> last_synced_height
                        (fst (sync_latest_blocks env' (fst (sync_latest_blocks env u))))
                      = last_synced_height (fst (sync_latest_blocks env u))))))"
proof (intro conjI impI)
  assume a: "snd (fetch_and_store env h (add_log (Info_processing h) s)) = r
      \<and> (r = Inr False \<or> (\<exists>e. r = Inl e \<and> \<not> pruned_data e))"
  then have r: "snd (fetch_and_store env h (add_log (Info_processing h) s)) = r"
    and other: "r = Inr False \<or> (\<exists>e. r = Inl e \<and> \<not> pruned_data e)" by simp_all
  let ?u = "add_log (Info_processing h) s"
  let ?l = "case r of Inl e \<Rightarrow> Error_processing h e | Inr ok \<Rightarrow> Error_failed_to_sync h"
  obtain s1 where f: "fetch_and_store env h ?u = (s1, r)"
    using r by (cases "fetch_and_store env h ?u") simp
  from other have nt: "r \<noteq> Inr True" by auto
  have d: "db s1 = db s" "last_synced_height s1 = last_synced_height s"
    using fetch_and_store_facts(3) [OF f nt] fetch_and_store_facts(1) [OF f]
    by (simp_all add: add_log_def)
  from fetch_and_store_facts(2) [OF f] obtain n1 where
    n1: "logged s1 = logged s @ Info_processing h # n1" "processed n1 = []"
    by (auto simp: add_log_def)
  have res: "sync_loop env (h # hs) s = add_log ?l s1"
    using f other by auto
  have pl: "processed [?l] = []" "stopped_at h ?l" using other by auto
  have 1: "logged (sync_loop env (h # hs) s) = logged s @ (Info_processing h # n1 @ [?l])"
    unfolding res by (simp add: add_log_def n1)
  have 2: "processed (Info_processing h # n1 @ [?l]) = [h]"
    using n1(2) pl(1) by (simp add: processed_append)
  have 3: "last (Info_processing h # n1 @ [?l]) = ?l" by simp
  with pl(2) have 4: "stopped_at h (last (Info_processing h # n1 @ [?l]))" by simp
  show "db (sync_loop env (h # hs) s) = db s"
    and "last_synced_height (sync_loop env (h # hs) s) = last_synced_height s"
    unfolding res using d by (simp_all add: add_log_def)
  from 1 2 3 4 show "\<exists>new. logged (sync_loop env (h # hs) s) = logged s @ new
            \<and> processed new = [h]
            \<and> last new = ?l \<and> stopped_at h (last new)" by blast
next
  show "snd (sync_latest_blocks env u) = None"
    by (simp add: sync_latest_blocks_def split: prod.splits option.splits)
next
  let ?s1 = "fst (sync_latest_blocks env u)"
  assume a: "last_synced_height u = JInt l
      \<and> make_rpc_call env ''getblockcount'' [] = Inr (JInt c)
      \<and> fst (get_prune_height env u) = JInt p
      \<and> logged ?s1 = logged u @ added
      \<and> added \<noteq> [] \<and> stopped_at k (last added)"
  then have l: "last_synced_height u = JInt l"
    and c: "make_rpc_call env ''getblockcount'' [] = Inr (JInt c)"
    and p: "fst (get_prune_height env u) = JInt p"
    and lg: "logged ?s1 = logged u @ added"
    and ne: "added \<noteq> []" and st: "stopped_at k (last added)" by simp_all
  from pass_stopped [OF l c p lg ne st] have
    ps: "processed added \<noteq> []" "last (processed added) = k" "max (l + 1) p \<le> k" "k \<le> c"
      "last_synced_height ?s1 = JInt (if k = max (l + 1) p then l else k - 1)"
    by simp_all
  from ps show "processed added \<noteq> []" and "last (processed added) = k"
    and "max (l + 1) p \<le> k" and "k \<le> c"
    and "last_synced_height ?s1 = JInt (if k = max (l + 1) p then l else k - 1)"
    by simp_all
  assume b: "make_rpc_call env' ''getblockcount'' [] = Inr (JInt c')
          \<and> fst (get_prune_height env' ?s1) = JInt p"
  then have c': "make_rpc_call env' ''getblockcount'' [] = Inr (JInt c')"
    and p': "fst (get_prune_height env' ?s1) = JInt p" by simp_all
  let ?l1 = "if k = max (l + 1) p then l else k - 1"
  have start: "max (?l1 + 1) p = k" using ps(3) by auto
  show "\<exists>new1. logged (fst (sync_latest_blocks env' ?s1)) = logged ?s1 @ new1
             \<and> (k < c' \<longrightarrow> processed new1 \<noteq> [] \<and> hd (processed new1) = k)
             \<and> (c' \<le> k \<longrightarrow>
                  processed new1 = []
                  \<and> rpc_calls new1 = [(''getblockcount'', []), (''getblockchaininfo'', [])]
                  \<and> db (fst (sync_latest_blocks env' ?s1)) = db ?s1
                  \<and> last_synced_height (fst (sync_latest_blocks env' ?s1))
                      = last_synced_height ?s1)"
  proof (cases "k < c'")
    case True
    with start have "max (?l1 + 1) p < c'" by simp
    from pass_first_height [OF ps(5) c' p' this] start True show ?thesis by auto
  next
    case False
    with start have "c' \<le> max (?l1 + 1) p" by simp
    from pass_up_to_date [OF ps(5) c' p' this] ps(5) False show ?thesis by auto
  qed
qed


theorem other_failure_stops_the_loop_witness:
  "snd (fetch_and_store down_env 1 (add_log (Info_processing 1) (new_sync down_env empty_db)))
     = Inl (ConnectionError ''Connection refused'')
   \<and> \<not> pruned_data (ConnectionError ''Connection refused'')
   \<and> db (sync_loop down_env [1, 2] (new_sync down_env empty_db)) = empty_db
   \<and> last_synced_height (sync_loop down_env [1, 2] (new_sync down_env empty_db)) = JInt 0
   \<and> (\<exists>new. logged (sync_loop down_env [1, 2] (new_sync down_env empty_db))
               = logged (new_sync down_env empty_db) @ new
          \<and> processed new = [1]
          \<and> last new = Error_processing 1 (ConnectionError ''Connection refused''))
   \<and> snd (sync_latest_blocks tip_down_env (new_sync tip_down_env empty_db)) = None
   \<and> last_synced_height (new_sync tip_down_env empty_db) = JInt 0
   \<and> make_rpc_call tip_down_env ''getblockcount'' [] = Inr (JInt 2)
   \<and> fst (get_prune_height tip_down_env (new_sync tip_down_env empty_db)) = JInt 0
   \<and> logged (new_sync tip_down_env empty_db) = []
   \<and> logged after_tip_failure \<noteq> []
   \<and> stopped_at 2 (last (logged after_tip_failure))
   \<and> last (processed (logged after_tip_failure)) = 2
   \<and> last_synced_height after_tip_failure = JInt 1
   \<and> map (col ''height'') (blocks (db after_tip_failure)) = [SInt 1]
   \<and> fst (get_prune_height tip_down_env after_tip_failure) = JInt 0
   \<and> (\<exists>new1. logged (fst (sync_latest_blocks tip_down_env after_tip_failure))
                = logged after_tip_failure @ new1
          \<and> processed new1 = []
          \<and> rpc_calls new1 = [(''getblockcount'', []), (''getblockchaininfo'', [])]
          \<and> db (fst (sync_latest_blocks tip_down_env after_tip_failure)) = db after_tip_failure
          \<and> last_synced_height (fst (sync_latest_blocks tip_down_env after_tip_failure))
              = JInt 1)
   \<and> make_rpc_call grown_env ''getblockcount'' [] = Inr (JInt 3)
   \<and> fst (get_prune_height grown_env after_tip_failure) = JInt 0
   \<and> (\<exists>new1. logged (fst (sync_latest_blocks grown_env after_tip_failure))
                = logged after_tip_failure @ new1
          \<and> processed new1 \<noteq> [] \<and> hd (processed new1) = 2)"
proof -
  let ?r = "Inl (ConnectionError ''Connection refused'') :: exn + bool"
  let ?s = "new_sync down_env empty_db"
  let ?u = "new_sync tip_down_env empty_db"
  have 1: "snd (fetch_and_store down_env 1 (add_log (Info_processing 1) ?s)) = ?r" by code_simp
  have 2: "\<not> pruned_data (ConnectionError ''Connection refused'')" by code_simp
  have 3: "?r = Inr False \<or> (\<exists>e. ?r = Inl e \<and> \<not> pruned_data e)" using 2 by simp
  have 4: "db ?s = empty_db" "last_synced_height ?s = JInt 0" by code_simp+
  have s1: "fst (sync_latest_blocks tip_down_env ?u) = after_tip_failure"
    by (simp add: after_tip_failure_def)
  have 5: "last_synced_height ?u = JInt 0" by code_simp
  have 6: "make_rpc_call tip_down_env ''getblockcount'' [] = Inr (JInt 2)" by code_simp
  have 7: "fst (get_prune_height tip_down_env ?u) = JInt 0" by code_simp
  have 8: "logged ?u = []" by code_simp
  have 9: "logged after_tip_failure \<noteq> []" by code_simp
  have 10: "stopped_at 2 (last (logged after_tip_failure))" by code_simp
  have 11: "map (col ''height'') (blocks (db after_tip_failure)) = [SInt 1]" by code_simp
  have 12: "fst (get_prune_height tip_down_env after_tip_failure) = JInt 0" by code_simp
  have 13: "make_rpc_call grown_env ''getblockcount'' [] = Inr (JInt 3)" by code_simp
  have 14: "fst (get_prune_height grown_env after_tip_failure) = JInt 0" by code_simp
  have lg: "logged after_tip_failure = logged ?u @ logged after_tip_failure"
    unfolding 8 by simp
  have ar: "max (0 + 1) 0 \<le> (2::int)" "(if (2::int) = max (0 + 1) 0 then 0 else 2 - 1) = (1::int)"
    "(2::int) \<le> 2" "(2::int) < 3" by simp_all
  note t1 = other_failure_stops_the_loop [where env = down_env and h = 1 and s = ?s
      and r = ?r and hs = "[2]"]
  note t = other_failure_stops_the_loop [where env = tip_down_env and u = ?u and l = 0
      and c = 2 and p = 0 and added = "logged after_tip_failure" and k = 2, unfolded s1]
  note hyp1 = conjI [OF 1 3]
  note hyp2 = conjI [OF 5 conjI [OF 6 conjI [OF 7 conjI [OF lg conjI [OF 9 10]]]]]
  from t1 hyp1 have
    "db (sync_loop down_env [1, 2] ?s) = db ?s" by blast
  then have a: "db (sync_loop down_env [1, 2] ?s) = empty_db" unfolding 4 .
  from t1 hyp1 have
    "last_synced_height (sync_loop down_env [1, 2] ?s) = last_synced_height ?s" by blast
  then have b: "last_synced_height (sync_loop down_env [1, 2] ?s) = JInt 0" unfolding 4 .
  have cs: "(case ?r of Inl e \<Rightarrow> Error_processing 1 e | Inr ok \<Rightarrow> Error_failed_to_sync 1)
      = Error_processing 1 (ConnectionError ''Connection refused'')" by simp
  from t1 hyp1 have
    c: "\<exists>new. logged (sync_loop down_env [1, 2] ?s) = logged ?s @ new
          \<and> processed new = [1]
          \<and> last new = Error_processing 1 (ConnectionError ''Connection refused'')"
    unfolding cs by blast
  from t [where env' = tip_down_env and c' = 2] have
    d: "snd (sync_latest_blocks tip_down_env ?u) = None" by blast
  from t [where env' = tip_down_env and c' = 2] hyp2 have
    e: "last (processed (logged after_tip_failure)) = 2" by blast
  from t [where env' = tip_down_env and c' = 2] hyp2 have
    "last_synced_height after_tip_failure
       = JInt (if (2::int) = max (0 + 1) 0 then 0 else 2 - 1)" by blast
  then have f: "last_synced_height after_tip_failure = JInt 1" unfolding ar(2) .
  from t [where env' = tip_down_env and c' = 2] hyp2 6 12 ar(3) have
    "\<exists>new1. logged (fst (sync_latest_blocks tip_down_env after_tip_failure))
                = logged after_tip_failure @ new1
          \<and> processed new1 = []
          \<and> rpc_calls new1 = [(''getblockcount'', []), (''getblockchaininfo'', [])]
          \<and> db (fst (sync_latest_blocks tip_down_env after_tip_failure)) = db after_tip_failure
          \<and> last_synced_height (fst (sync_latest_blocks tip_down_env after_tip_failure))
              = last_synced_height after_tip_failure" by blast
  then have g: "\<exists>new1. logged (fst (sync_latest_blocks tip_down_env after_tip_failure))
                = logged after_tip_failure @ new1
          \<and> processed new1 = []
          \<and> rpc_calls new1 = [(''getblockcount'', []), (''getblockchaininfo'', [])]
          \<and> db (fst (sync_latest_blocks tip_down_env after_tip_failure)) = db after_tip_failure
          \<and> last_synced_height (fst (sync_latest_blocks tip_down_env after_tip_failure))
              = JInt 1" unfolding f .
  from t [where env' = grown_env and c' = 3] hyp2 13 14 ar(4) have
    h: "\<exists>new1. logged (fst (sync_latest_blocks grown_env after_tip_failure))
                = logged after_tip_failure @ new1
          \<and> processed new1 \<noteq> [] \<and> hd (processed new1) = 2" by blast
  from 1 2 a b c d 5 6 7 8 9 10 e f 11 12 g 13 14 h show ?thesis by blast
qed


subsection \<open>C6: missing optional fields\<close>

text \<open>
  Claim C6 says that a missing previous hash, next hash, fee and address are all stored
  as null, never as a value such as 0. The code gives a missing fee the default 0: the
  row of a coinbase transaction, which has no fee, holds the integer 0.
\<close>

theorem fee_sentinel_counterexample:
  "py_contains ''fee'' (coinbase_tx ''aa'') = Inr False
   \<and> snd (store_block down_env empty_db (block_at 1 ''0001'' [coinbase_tx ''aa''])) = Inr True
   \<and> col ''fee'' (hd (transactions (fst (store_block down_env empty_db
        (block_at 1 ''0001'' [coinbase_tx ''aa''])))))
      = SInt 0"
  by code_simp

text \<open>
  Claim C6, amended: in the row an INSERT of the writer appends, the previous hash and
  the next hash are NULL when the block has no \<^verbatim>\<open>previousblockhash\<close> and no
  \<^verbatim>\<open>nextblockhash\<close>, the address is NULL when \<^verbatim>\<open>'addresses' in vout['scriptPubKey']\<close> is
  false, and the fee is the integer 0 when the transaction has no \<^verbatim>\<open>fee\<close>. \<open>insert_row\<close>
  is the call of the writer with its argument, on a committed state \<open>d\<close> and a state
  \<open>w\<close> of the connection; \<open>\<not> isl\<close> of its result says that it succeeded.
\<close>

theorem missing_optional_fields:
  "(\<not> isl (snd (insert_row env Blocks block_cols (block_params block_data) d w)) \<longrightarrow>
      (py_contains ''previousblockhash'' block_data = Inr False \<longrightarrow>
         col ''previous_hash'' (last (blocks (fst
           (insert_row env Blocks block_cols (block_params block_data) d w)))) = SNull)
      \<and> (py_contains ''nextblockhash'' block_data = Inr False \<longrightarrow>
         col ''next_hash'' (last (blocks (fst
           (insert_row env Blocks block_cols (block_params block_data) d w)))) = SNull))
   \<and> (\<not> isl (snd (insert_row env Transactions transaction_cols
          (transaction_params tx_data block_id) d w))
        \<and> py_contains ''fee'' tx_data = Inr False \<longrightarrow>
        col ''fee'' (last (transactions (fst
          (insert_row env Transactions transaction_cols
          (transaction_params tx_data block_id) d w)))) = SInt 0)
   \<and> (\<not> isl (snd (insert_row env Outputs output_cols (output_params env tx_id vout) d w))
        \<and> bindE (py_getitem vout ''scriptPubKey'') (py_contains ''addresses'') = Inr False \<longrightarrow>
        col ''address'' (last (outputs (fst
          (insert_row env Outputs output_cols (output_params env tx_id vout) d w)))) = SNull)"
proof (intro conjI impI)
  let ?B = "insert_row env Blocks block_cols (block_params block_data) d w"
  {
    assume ok: "\<not> isl (snd ?B)"
    then obtain w' rid where B: "?B = (w', Inr rid)" by (cases ?B; cases "snd ?B") auto
    from inserted_row [OF B] obtain ps vals where
      ps: "block_params block_data = Inr ps" and vals: "bind_all ps = Inr vals"
      and row: "last (blocks w') = (rid, zip block_cols vals)" by auto
    from block_params_dict [OF ps] obtain b where b: "block_data = JObj b" by blast
    from block_params_optional [OF ps [unfolded b]] have
      len: "length ps = 12"
      and p10: "map_of b ''previousblockhash'' = None \<longrightarrow> ps ! 10 = JNull"
      and p11: "map_of b ''nextblockhash'' = None \<longrightarrow> ps ! 11 = JNull" by simp_all
    from bind_all_nth [OF vals] len have
      vlen: "length vals = 12" and vb: "\<And>i. i < 12 \<Longrightarrow> bind_param (ps ! i) = Inr (vals ! i)"
      by simp_all
    have dist: "distinct block_cols" "length block_cols = 12"
      "block_cols ! 10 = ''previous_hash''" "block_cols ! 11 = ''next_hash''"
      by (simp_all add: block_cols_def)
    have c10: "col ''previous_hash'' (rid, zip block_cols vals) = vals ! 10"
      using col_zip_nth [OF dist(1), of vals 10 rid] vlen dist by simp
    have c11: "col ''next_hash'' (rid, zip block_cols vals) = vals ! 11"
      using col_zip_nth [OF dist(1), of vals 11 rid] vlen dist by simp
    {
      assume "py_contains ''previousblockhash'' block_data = Inr False"
      with p10 b vb [of 10] have "vals ! 10 = SNull" by simp
      with c10 row B
      show "col ''previous_hash'' (last (blocks (fst ?B))) = SNull" by simp
    }
    {
      assume "py_contains ''nextblockhash'' block_data = Inr False"
      with p11 b vb [of 11] have "vals ! 11 = SNull" by simp
      with c11 row B
      show "col ''next_hash'' (last (blocks (fst ?B))) = SNull" by simp
    }
  }
next
  let ?T = "insert_row env Transactions transaction_cols
          (transaction_params tx_data block_id) d w"
  assume h: "\<not> isl (snd ?T) \<and> py_contains ''fee'' tx_data = Inr False"
  then obtain w' rid where T: "?T = (w', Inr rid)" by (cases ?T; cases "snd ?T") auto
  from inserted_row [OF T] obtain ps vals where
    ps: "transaction_params tx_data block_id = Inr ps" and vals: "bind_all ps = Inr vals"
    and row: "last (transactions w') = (rid, zip transaction_cols vals)" by auto
  from transaction_params_dict [OF ps] obtain t where t: "tx_data = JObj t" by blast
  from transaction_params_fee [OF ps [unfolded t]] h t
  have len: "length ps = 6" and p5: "ps ! 5 = JInt 0"
    by simp_all
  from bind_all_nth [OF vals] len have
    vlen: "length vals = 6" and vb: "\<And>i. i < 6 \<Longrightarrow> bind_param (ps ! i) = Inr (vals ! i)"
    by simp_all
  have dist: "distinct transaction_cols" "length transaction_cols = 6"
    "transaction_cols ! 5 = ''fee''"
    by (simp_all add: transaction_cols_def)
  have c5: "col ''fee'' (rid, zip transaction_cols vals) = vals ! 5"
    using col_zip_nth [OF dist(1), of vals 5 rid] vlen dist by simp
  from p5 vb [of 5] have "vals ! 5 = SInt 0" by simp
  with c5 row T show "col ''fee'' (last (transactions (fst ?T))) = SInt 0" by simp
next
  let ?O = "insert_row env Outputs output_cols (output_params env tx_id vout) d w"
  assume h: "\<not> isl (snd ?O)
     \<and> bindE (py_getitem vout ''scriptPubKey'') (py_contains ''addresses'') = Inr False"
  then obtain w' rid where O: "?O = (w', Inr rid)" by (cases ?O; cases "snd ?O") auto
  from inserted_row [OF O] obtain ps vals where
    ps: "output_params env tx_id vout = Inr ps" and vals: "bind_all ps = Inr vals"
    and row: "last (outputs w') = (rid, zip output_cols vals)" by auto
  from output_params_no_address [OF ps] h have len: "length ps = 5" and p4: "ps ! 4 = JNull"
    by simp_all
  from bind_all_nth [OF vals] len have
    vlen: "length vals = 5" and vb: "\<And>i. i < 5 \<Longrightarrow> bind_param (ps ! i) = Inr (vals ! i)"
    by simp_all
  have dist: "distinct output_cols" "length output_cols = 5" "output_cols ! 4 = ''address''"
    by (simp_all add: output_cols_def)
  have c4: "col ''address'' (rid, zip output_cols vals) = vals ! 4"
    using col_zip_nth [OF dist(1), of vals 4 rid] vlen dist by simp
  from p4 vb [of 4] have "vals ! 4 = SNull" by simp
  with c4 row O show "col ''address'' (last (outputs (fst ?O))) = SNull" by simp
qed


theorem missing_optional_fields_witness:
  "\<not> isl (snd (insert_row down_env Blocks block_cols (block_params (block_at 1 ''0001'' []))
              empty_db empty_db))
   \<and> py_contains ''previousblockhash'' (block_at 1 ''0001'' []) = Inr False
   \<and> py_contains ''nextblockhash'' (block_at 1 ''0001'' []) = Inr False
   \<and> col ''previous_hash'' (last (blocks (fst
        (insert_row down_env Blocks block_cols (block_params (block_at 1 ''0001'' []))
           empty_db empty_db)))) = SNull
   \<and> col ''next_hash'' (last (blocks (fst
        (insert_row down_env Blocks block_cols (block_params (block_at 1 ''0001'' []))
           empty_db empty_db)))) = SNull
   \<and> \<not> isl (snd (insert_row down_env Transactions transaction_cols
              (transaction_params (coinbase_tx ''aa'') 1) empty_db empty_db))
   \<and> py_contains ''fee'' (coinbase_tx ''aa'') = Inr False
   \<and> col ''fee'' (last (transactions (fst
        (insert_row down_env Transactions transaction_cols
           (transaction_params (coinbase_tx ''aa'') 1) empty_db empty_db)))) = SInt 0
   \<and> \<not> isl (snd (insert_row down_env Outputs output_cols
              (output_params down_env 1 plain_output) empty_db empty_db))
   \<and> bindE (py_getitem plain_output ''scriptPubKey'') (py_contains ''addresses'') = Inr False
   \<and> col ''address'' (last (outputs (fst
        (insert_row down_env Outputs output_cols
           (output_params down_env 1 plain_output) empty_db empty_db)))) = SNull"
proof -
  have 1: "\<not> isl (snd (insert_row down_env Blocks block_cols
             (block_params (block_at 1 ''0001'' [])) empty_db empty_db))" by code_simp
  have 2: "py_contains ''previousblockhash'' (block_at 1 ''0001'' []) = Inr False" by code_simp
  have 3: "py_contains ''nextblockhash'' (block_at 1 ''0001'' []) = Inr False" by code_simp
  have 4: "\<not> isl (snd (insert_row down_env Transactions transaction_cols
              (transaction_params (coinbase_tx ''aa'') 1) empty_db empty_db))" by code_simp
  have 5: "py_contains ''fee'' (coinbase_tx ''aa'') = Inr False" by code_simp
  have 6: "\<not> isl (snd (insert_row down_env Outputs output_cols
              (output_params down_env 1 plain_output) empty_db empty_db))" by code_simp
  have 7: "bindE (py_getitem plain_output ''scriptPubKey'') (py_contains ''addresses'') = Inr False"
    by code_simp
  from missing_optional_fields [of down_env "block_at 1 ''0001'' []" empty_db empty_db
      "coinbase_tx ''aa''" 1 1 plain_output] 1 2 3 4 5 6 7
  show ?thesis by blast
qed


subsection \<open>C7: the height tracker\<close>

text \<open>
  Claim C7 says that the height tracker returns the largest height in the blocks table
  and, for an empty store, a value below the height of the first block and distinct
  from every stored height. The value for the empty store is 0, which is also the answer
  for a store whose only block has height 0.
\<close>

theorem genesis_height_counterexample:
  "map (col ''height'') (blocks genesis_db) = [SInt 0]
   \<and> blocks empty_db = []
   \<and> get_last_synced_height down_env genesis_db = JInt 0
   \<and> get_last_synced_height down_env empty_db = JInt 0"
  by code_simp


text \<open>
  Claim C7, amended: when the heights in the blocks table are the integers \<open>hs\<close>, the
  height tracker returns the largest of them, and 0 when there is none; it returns 0
  as well when the query fails.
\<close>

theorem last_synced_height_is_max_or_zero:
  "(db_reads env d \<and> map (col ''height'') (blocks d) = map SInt hs \<longrightarrow>
      get_last_synced_height env d = JInt (if hs = [] then 0 else Max (set hs)))
   \<and> (\<not> db_reads env d \<longrightarrow> get_last_synced_height env d = JInt 0)"
  by (auto simp: get_last_synced_height_def sql_max_ints split: list.splits)


theorem last_synced_height_is_max_or_zero_witness:
  "db_reads two_block_env (db (fst (sync_latest_blocks two_block_env (new_sync two_block_env empty_db))))
   \<and> map (col ''height'')
        (blocks (db (fst (sync_latest_blocks two_block_env (new_sync two_block_env empty_db)))))
       = map SInt [1, 2]
   \<and> get_last_synced_height two_block_env
        (db (fst (sync_latest_blocks two_block_env (new_sync two_block_env empty_db)))) = JInt 2
   \<and> db_reads two_block_env empty_db
   \<and> get_last_synced_height two_block_env empty_db = JInt 0
   \<and> \<not> db_reads unreadable_env genesis_db
   \<and> get_last_synced_height unreadable_env genesis_db = JInt 0"
proof -
  let ?d = "db (fst (sync_latest_blocks two_block_env (new_sync two_block_env empty_db)))"
  have 1: "db_reads two_block_env ?d" by code_simp
  have 2: "map (col ''height'') (blocks ?d) = map SInt [1, 2]" by code_simp
  have 3: "db_reads two_block_env empty_db" by code_simp
  have 4: "map (col ''height'') (blocks empty_db) = map SInt []" by code_simp
  have 5: "\<not> db_reads unreadable_env genesis_db" by code_simp
  from last_synced_height_is_max_or_zero [of two_block_env ?d "[1, 2]"]
    last_synced_height_is_max_or_zero [of two_block_env empty_db "[]"]
    last_synced_height_is_max_or_zero [of unreadable_env genesis_db "[]"]
    1 2 3 4 5
  show ?thesis by simp
qed


subsection \<open>C8: referential integrity after a pass\<close>

text \<open>
  Claim C8 says that after every pass every input and output row refers to a
  transaction row of the store and every transaction row to a block row. A failed
  INSERT inside \<^verbatim>\<open>_store_transaction\<close> is caught there and \<^verbatim>\<open>_store_block\<close> goes on
  with the next transaction (the slip of claim C1); when the failure is one after which
  SQLite has rolled the open transaction back, the block row is gone, the next INSERT
  begins a new transaction and \<^verbatim>\<open>conn.commit()\<close> commits it. A run of the code on an
  empty store: the block has three transactions and the disk is full at the row of the
  second. \<^verbatim>\<open>_store_block\<close> returns True; the store holds no block row and the row of
  the third transaction with the block id 1, with its input and its output. The pass
  over heights 1 and 2 that meets this block at height 1 ends with the tracked height
  1 and a store that has a transaction row referring to no block row.
\<close>

theorem orphan_transaction_is_committed:
  "snd (store_block full_disk_env empty_db three_tx_block) = Inr True
   \<and> blocks (fst (store_block full_disk_env empty_db three_tx_block)) = []
   \<and> map (col ''txid'') (transactions (fst (store_block full_disk_env empty_db three_tx_block)))
       = [SText ''cc'']
   \<and> map (col ''block_id'') (transactions (fst (store_block full_disk_env empty_db three_tx_block)))
       = [SInt 1]
   \<and> length (inputs (fst (store_block full_disk_env empty_db three_tx_block))) = 1
   \<and> length (outputs (fst (store_block full_disk_env empty_db three_tx_block))) = 1
   \<and> references ''transaction_id''
        (inputs (fst (store_block full_disk_env empty_db three_tx_block)))
        (transactions (fst (store_block full_disk_env empty_db three_tx_block)))
   \<and> references ''transaction_id''
        (outputs (fst (store_block full_disk_env empty_db three_tx_block)))
        (transactions (fst (store_block full_disk_env empty_db three_tx_block)))
   \<and> \<not> references ''block_id''
          (transactions (fst (store_block full_disk_env empty_db three_tx_block)))
          (blocks (fst (store_block full_disk_env empty_db three_tx_block)))
   \<and> ref_integrity (db (new_sync full_disk_env empty_db))
   \<and> processed (logged (fst (sync_latest_blocks full_disk_env (new_sync full_disk_env empty_db))))
       = [1, 2]
   \<and> last_synced_height (fst (sync_latest_blocks full_disk_env (new_sync full_disk_env empty_db)))
       = JInt 1
   \<and> blocks (db (fst (sync_latest_blocks full_disk_env (new_sync full_disk_env empty_db)))) = []
   \<and> map (col ''block_id'') (transactions (db (fst (sync_latest_blocks full_disk_env
        (new_sync full_disk_env empty_db))))) = [SInt 1]
   \<and> \<not> ref_integrity (db (fst (sync_latest_blocks full_disk_env
        (new_sync full_disk_env empty_db))))"
  by code_simp


subsection \<open>C9: the RPC client\<close>






subsection \<open>C10: provisioning removes the old database\<close>

text \<open>
  Claim C10: when a file is at the target path, \<^verbatim>\<open>create_database\<close> does what it would
  do had the path held nothing: the result does not depend on what the file held.
  The call returns, and what is at the path afterwards is nothing, or the database the
  schema script made.
\<close>

theorem create_database_removes_existing:
  assumes "n = (case db_name_opt of None \<Rightarrow> ''bitcoin.db'' | Some x \<Rightarrow> x)"
    and "fs n = Some f" and "f \<noteq> Dir"
  shows "create_database run_schema schema_file db_name_opt fs
           = create_database run_schema schema_file db_name_opt (fs(n := None))
         \<and> (\<exists>fs'. create_database run_schema schema_file db_name_opt fs = Inr fs'
               \<and> (fs' n = None \<or>
                   (\<exists>schema d. (fs(n := None)) schema_file = Some (TextFile schema)
                      \<and> run_schema n schema = Some d \<and> fs' n = Some (DbFile d))))"
  using assms
  by (cases f) (auto simp: create_database_def Let_def split: option.splits entry.splits)


theorem create_database_removes_existing_witness:
  "old_files ''bitcoin.db'' = Some (DbFile genesis_db)
   \<and> DbFile genesis_db \<noteq> Dir
   \<and> create_database (\<lambda>n s. Some empty_db) ''lastest_block.sql'' None old_files
       = create_database (\<lambda>n s. Some empty_db) ''lastest_block.sql'' None
           (old_files(''bitcoin.db'' := None))
   \<and> (\<exists>fs'. create_database (\<lambda>n s. Some empty_db) ''lastest_block.sql'' None old_files = Inr fs'
         \<and> fs' ''bitcoin.db'' = Some (DbFile empty_db))"
proof -
  have 1: "''bitcoin.db'' = (case None :: string option of None \<Rightarrow> ''bitcoin.db'' | Some x \<Rightarrow> x)"
    by simp
  have 2: "old_files ''bitcoin.db'' = Some (DbFile genesis_db)" by (simp add: old_files_def)
  have 3: "DbFile genesis_db \<noteq> Dir" by simp
  note t = create_database_removes_existing
    [where n = "''bitcoin.db''" and db_name_opt = None and fs = old_files
       and f = "DbFile genesis_db" and run_schema = "\<lambda>n s. Some empty_db"
       and schema_file = "''lastest_block.sql''", OF 1 2 3]
  have 5: "create_database (\<lambda>n s. Some empty_db) ''lastest_block.sql'' None
             (old_files(''bitcoin.db'' := None))
           = Inr ((old_files(''bitcoin.db'' := None))(''bitcoin.db'' \<mapsto> DbFile empty_db))"
    by (simp add: create_database_def old_files_def)
  from t have 6: "create_database (\<lambda>n s. Some empty_db) ''lastest_block.sql'' None old_files
       = create_database (\<lambda>n s. Some empty_db) ''lastest_block.sql'' None
           (old_files(''bitcoin.db'' := None))" by blast
  have 7: "\<exists>fs'. create_database (\<lambda>n s. Some empty_db) ''lastest_block.sql'' None old_files = Inr fs'
         \<and> fs' ''bitcoin.db'' = Some (DbFile empty_db)"
    unfolding 6 5 by simp
  from 2 3 6 7 show ?thesis by blast
qed

end
